theory Spec2Isabelle
  imports Complex_Main
begin

section \<open>Floating-point values\<close>

text \<open>
  The momentum core computes on Python and pandas floats. A float is modelled as a real
  number or the value \<open>NaN\<close>, which pandas uses for "undefined" (the first row of a
  shifted column, the first rows of a rolling window). Rounding and the two
  infinities are outside the model: arithmetic is exact.
\<close>

datatype fl = NaN | Fin real

fun fadd :: "fl \<Rightarrow> fl \<Rightarrow> fl" where
  "fadd (Fin x) (Fin y) = Fin (x + y)"
| "fadd _ _ = NaN"

fun fsub :: "fl \<Rightarrow> fl \<Rightarrow> fl" where
  "fsub (Fin x) (Fin y) = Fin (x - y)"
| "fsub _ _ = NaN"

fun fmul :: "fl \<Rightarrow> fl \<Rightarrow> fl" where
  "fmul (Fin x) (Fin y) = Fin (x * y)"
| "fmul _ _ = NaN"

text \<open>Division of pandas columns: a zero divisor gives no finite value.\<close>

fun fdiv :: "fl \<Rightarrow> fl \<Rightarrow> fl" where
  "fdiv (Fin x) (Fin y) = (if y = 0 then NaN else Fin (x / y))"
| "fdiv _ _ = NaN"

fun fabs :: "fl \<Rightarrow> fl" where
  "fabs (Fin x) = Fin \<bar>x\<bar>"
| "fabs NaN = NaN"

text \<open>Every comparison with \<open>NaN\<close> is false.\<close>

fun flt :: "fl \<Rightarrow> fl \<Rightarrow> bool" where
  "flt (Fin x) (Fin y) = (x < y)"
| "flt _ _ = False"

fun fle :: "fl \<Rightarrow> fl \<Rightarrow> bool" where
  "fle (Fin x) (Fin y) = (x \<le> y)"
| "fle _ _ = False"

fun fgt :: "fl \<Rightarrow> fl \<Rightarrow> bool" where
  "fgt (Fin x) (Fin y) = (x > y)"
| "fgt _ _ = False"

fun fge :: "fl \<Rightarrow> fl \<Rightarrow> bool" where
  "fge (Fin x) (Fin y) = (x \<ge> y)"
| "fge _ _ = False"

text \<open>\<open>np.maximum\<close> and \<open>np.minimum\<close> propagate \<open>NaN\<close>.\<close>

fun np_maximum :: "fl \<Rightarrow> fl \<Rightarrow> fl" where
  "np_maximum (Fin x) (Fin y) = Fin (max x y)"
| "np_maximum _ _ = NaN"

fun np_minimum :: "fl \<Rightarrow> fl \<Rightarrow> fl" where
  "np_minimum (Fin x) (Fin y) = Fin (min x y)"
| "np_minimum _ _ = NaN"

text \<open>
  Python's builtin \<open>max(a, b)\<close> keeps \<open>a\<close> unless \<open>b > a\<close>, so a \<open>NaN\<close> in second
  place is dropped and a \<open>NaN\<close> in first place is kept.
\<close>

definition py_max :: "fl \<Rightarrow> fl \<Rightarrow> fl" where
  "py_max a b = (if fgt b a then b else a)"

fun isfinite :: "fl \<Rightarrow> bool" where
  "isfinite (Fin x) = True"
| "isfinite NaN = False"

datatype py_error = ZeroDivisionError | ValueError | OverflowError

text \<open>Python's \<open>/\<close> on two floats raises on a zero divisor.\<close>

definition py_truediv :: "fl \<Rightarrow> fl \<Rightarrow> py_error + fl" where
  "py_truediv a b = (if b = Fin 0 then Inl ZeroDivisionError else Inr (fdiv a b))"

text \<open>\<open>int(x)\<close> truncates towards zero and raises on \<open>NaN\<close>.\<close>

fun py_int :: "fl \<Rightarrow> py_error + int" where
  "py_int NaN = Inl ValueError"
| "py_int (Fin x) = Inr (if 0 \<le> x then \<lfloor>x\<rfloor> else \<lceil>x\<rceil>)"

subsection \<open>The finite range of a float\<close>

text \<open>
  A 64-bit float is finite only up to \<open>float_max\<close>; an operation whose exact result
  lies beyond it gives an infinity, and \<open>int\<close> of an infinity raises
  \<open>OverflowError\<close>. \<open>pyfloat\<close> adds the two infinities to \<open>fl\<close>, for the code where
  they decide the outcome: \<open>position_size\<close>. Rounding and signed zeros stay outside
  the model.
\<close>

definition float_max :: real where
  "float_max = (2 - 1 / 2 ^ 52) * 2 ^ 1023"

datatype pyfloat = PNaN | PInf | NInf | PFin real

text \<open>The float for an exact result \<open>x\<close>.\<close>

definition to_float :: "real \<Rightarrow> pyfloat" where
  "to_float x = (if float_max < x then PInf else if x < - float_max then NInf else PFin x)"

fun of_fl :: "fl \<Rightarrow> pyfloat" where
  "of_fl NaN = PNaN"
| "of_fl (Fin x) = to_float x"

fun pf_sub :: "pyfloat \<Rightarrow> pyfloat \<Rightarrow> pyfloat" where
  "pf_sub (PFin x) (PFin y) = to_float (x - y)"
| "pf_sub PNaN b = PNaN"
| "pf_sub a PNaN = PNaN"
| "pf_sub PInf PInf = PNaN"
| "pf_sub NInf NInf = PNaN"
| "pf_sub PInf b = PInf"
| "pf_sub NInf b = NInf"
| "pf_sub (PFin x) PInf = NInf"
| "pf_sub (PFin x) NInf = PInf"

fun pf_mul :: "pyfloat \<Rightarrow> pyfloat \<Rightarrow> pyfloat" where
  "pf_mul (PFin x) (PFin y) = to_float (x * y)"
| "pf_mul PNaN b = PNaN"
| "pf_mul a PNaN = PNaN"
| "pf_mul PInf (PFin y) = (if y = 0 then PNaN else if 0 < y then PInf else NInf)"
| "pf_mul NInf (PFin y) = (if y = 0 then PNaN else if 0 < y then NInf else PInf)"
| "pf_mul (PFin x) PInf = (if x = 0 then PNaN else if 0 < x then PInf else NInf)"
| "pf_mul (PFin x) NInf = (if x = 0 then PNaN else if 0 < x then NInf else PInf)"
| "pf_mul PInf PInf = PInf"
| "pf_mul PInf NInf = NInf"
| "pf_mul NInf PInf = NInf"
| "pf_mul NInf NInf = PInf"

fun pf_div :: "pyfloat \<Rightarrow> pyfloat \<Rightarrow> pyfloat" where
  "pf_div (PFin x) (PFin y) = to_float (x / y)"
| "pf_div PNaN b = PNaN"
| "pf_div a PNaN = PNaN"
| "pf_div PInf (PFin y) = (if 0 < y then PInf else NInf)"
| "pf_div NInf (PFin y) = (if 0 < y then NInf else PInf)"
| "pf_div (PFin x) b = PFin 0"
| "pf_div a b = PNaN"

text \<open>An infinity compares as larger or smaller than every finite float.\<close>

fun pf_gt :: "pyfloat \<Rightarrow> pyfloat \<Rightarrow> bool" where
  "pf_gt (PFin x) (PFin y) = (x > y)"
| "pf_gt PNaN b = False"
| "pf_gt a PNaN = False"
| "pf_gt a PInf = False"
| "pf_gt NInf b = False"
| "pf_gt a NInf = True"
| "pf_gt PInf b = True"

text \<open>Python's \<open>max(a, b)\<close>, \<open>/\<close> and \<open>int\<close> on these floats.\<close>

definition pf_max :: "pyfloat \<Rightarrow> pyfloat \<Rightarrow> pyfloat" where
  "pf_max a b = (if pf_gt b a then b else a)"

definition pf_truediv :: "pyfloat \<Rightarrow> pyfloat \<Rightarrow> py_error + pyfloat" where
  "pf_truediv a b = (if b = PFin 0 then Inl ZeroDivisionError else Inr (pf_div a b))"

fun pf_int :: "pyfloat \<Rightarrow> py_error + int" where
  "pf_int PNaN = Inl ValueError"
| "pf_int PInf = Inl OverflowError"
| "pf_int NInf = Inl OverflowError"
| "pf_int (PFin x) = Inr (if 0 \<le> x then \<lfloor>x\<rfloor> else \<lceil>x\<rceil>)"


section \<open>Risk and position sizing (rick.py)\<close>

definition risk_per_share :: "fl \<Rightarrow> fl \<Rightarrow> fl" where
  "risk_per_share entry stop = py_max (Fin 0.01) (fsub entry stop)"

definition risk_dollars :: "fl \<Rightarrow> fl \<Rightarrow> fl" where
  "risk_dollars equity r_pct = py_max (Fin 0.0) (fmul equity r_pct)"

definition position_size :: "fl \<Rightarrow> fl \<Rightarrow> fl \<Rightarrow> fl \<Rightarrow> py_error + int" where
  "position_size entry stop equity r_pct =
     (if fgt (risk_per_share entry stop) (Fin 0)
      then (case py_truediv (risk_dollars equity r_pct) (risk_per_share entry stop) of
              Inl e \<Rightarrow> Inl e
            | Inr q \<Rightarrow> py_int q)
      else Inr 0)"

text \<open>
  The three definitions above are \<open>position_size\<close> on floats of unbounded range. The
  next three are the same lines on floats with their finite range: the difference,
  the product and the quotient can overflow to an infinity, and then \<open>int\<close> raises.
  This is the function the bot calls.
\<close>

definition risk_per_share_float :: "pyfloat \<Rightarrow> pyfloat \<Rightarrow> pyfloat" where
  "risk_per_share_float entry stop = pf_max (PFin 0.01) (pf_sub entry stop)"

definition risk_dollars_float :: "pyfloat \<Rightarrow> pyfloat \<Rightarrow> pyfloat" where
  "risk_dollars_float equity r_pct = pf_max (PFin 0.0) (pf_mul equity r_pct)"

definition position_size_float ::
  "pyfloat \<Rightarrow> pyfloat \<Rightarrow> pyfloat \<Rightarrow> pyfloat \<Rightarrow> py_error + int" where
  "position_size_float entry stop equity r_pct =
     (if pf_gt (risk_per_share_float entry stop) (PFin 0)
      then (case pf_truediv (risk_dollars_float equity r_pct)
                   (risk_per_share_float entry stop) of
              Inl e \<Rightarrow> Inl e
            | Inr q \<Rightarrow> pf_int q)
      else Inr 0)"

definition immediate_stop_hit :: "fl \<Rightarrow> fl \<Rightarrow> fl \<Rightarrow> bool" where
  "immediate_stop_hit price entry max_loss_pct =
     fle price (fmul entry (fadd (fsub (Fin 1) max_loss_pct) (Fin (1 / 10 ^ 12))))"


section \<open>Columns of a frame (pandas Series)\<close>

text \<open>
  A column is a list of floats, one per bar; the columns of one frame have the same
  length. The operators of pandas act element by element.
\<close>

type_synonym series = "fl list"
type_synonym bseries = "bool list"

text \<open>\<open>s.shift(1)\<close>: every value moves one row down and the first row is \<open>NaN\<close>.\<close>

definition shift1 :: "series \<Rightarrow> series" where
  "shift1 xs = take (length xs) (NaN # xs)"

definition s_add :: "series \<Rightarrow> series \<Rightarrow> series" where
  "s_add xs ys = map2 fadd xs ys"

definition s_sub :: "series \<Rightarrow> series \<Rightarrow> series" where
  "s_sub xs ys = map2 fsub xs ys"

definition s_div :: "series \<Rightarrow> series \<Rightarrow> series" where
  "s_div xs ys = map2 fdiv xs ys"

definition s_abs :: "series \<Rightarrow> series" where
  "s_abs xs = map fabs xs"

text \<open>A column combined with a scalar.\<close>

definition s_addc :: "series \<Rightarrow> real \<Rightarrow> series" where
  "s_addc xs k = map (\<lambda>x. fadd x (Fin k)) xs"

definition s_mulc :: "series \<Rightarrow> real \<Rightarrow> series" where
  "s_mulc xs k = map (\<lambda>x. fmul x (Fin k)) xs"

definition s_cmul :: "real \<Rightarrow> series \<Rightarrow> series" where
  "s_cmul k xs = map (\<lambda>x. fmul (Fin k) x) xs"

definition s_divc :: "series \<Rightarrow> real \<Rightarrow> series" where
  "s_divc xs k = map (\<lambda>x. fdiv x (Fin k)) xs"

definition s_gtc :: "series \<Rightarrow> real \<Rightarrow> bseries" where
  "s_gtc xs k = map (\<lambda>x. fgt x (Fin k)) xs"

definition s_ltc :: "series \<Rightarrow> real \<Rightarrow> bseries" where
  "s_ltc xs k = map (\<lambda>x. flt x (Fin k)) xs"

text \<open>Comparisons of two columns.\<close>

definition s_lt :: "series \<Rightarrow> series \<Rightarrow> bseries" where
  "s_lt xs ys = map2 flt xs ys"

definition s_le :: "series \<Rightarrow> series \<Rightarrow> bseries" where
  "s_le xs ys = map2 fle xs ys"

definition s_gt :: "series \<Rightarrow> series \<Rightarrow> bseries" where
  "s_gt xs ys = map2 fgt xs ys"

definition s_ge :: "series \<Rightarrow> series \<Rightarrow> bseries" where
  "s_ge xs ys = map2 fge xs ys"

definition s_maximum :: "series \<Rightarrow> series \<Rightarrow> series" where
  "s_maximum xs ys = map2 np_maximum xs ys"

definition s_minimum :: "series \<Rightarrow> series \<Rightarrow> series" where
  "s_minimum xs ys = map2 np_minimum xs ys"

text \<open>\<open>&\<close> and \<open>|\<close> on boolean columns.\<close>

definition b_and :: "bseries \<Rightarrow> bseries \<Rightarrow> bseries" where
  "b_and xs ys = map2 (\<and>) xs ys"

definition b_or :: "bseries \<Rightarrow> bseries \<Rightarrow> bseries" where
  "b_or xs ys = map2 (\<or>) xs ys"


section \<open>Candlestick anatomy and pattern detectors (strategies_momentum.py)\<close>

definition candle_body :: "series \<Rightarrow> series \<Rightarrow> series" where
  "candle_body opn cl = s_abs (s_sub cl opn)"

definition candle_range :: "series \<Rightarrow> series \<Rightarrow> series" where
  "candle_range hi lo = s_abs (s_sub hi lo)"

definition candle_upper :: "series \<Rightarrow> series \<Rightarrow> series \<Rightarrow> series" where
  "candle_upper opn hi cl = s_sub hi (s_maximum opn cl)"

definition candle_lower :: "series \<Rightarrow> series \<Rightarrow> series \<Rightarrow> series" where
  "candle_lower opn lo cl = s_sub (s_minimum opn cl) lo"

definition is_doji :: "series \<Rightarrow> series \<Rightarrow> series \<Rightarrow> series \<Rightarrow> real \<Rightarrow> bseries" where
  "is_doji opn hi lo cl body_pct =
     (let rng = candle_range hi lo;
          body = candle_body opn cl
      in b_and (s_gtc rng 0) (s_le body (s_mulc rng body_pct)))"

definition is_hammer ::
  "series \<Rightarrow> series \<Rightarrow> series \<Rightarrow> series \<Rightarrow> real \<Rightarrow> real \<Rightarrow> real \<Rightarrow> bseries" where
  "is_hammer opn hi lo cl body_max_pct lower_to_body_min upper_max_pct =
     (let rng = candle_range hi lo;
          body = candle_body opn cl;
          upper = candle_upper opn hi cl;
          lower = candle_lower opn lo cl;
          small_body = s_le body (s_mulc rng body_max_pct);
          long_lower = s_ge lower (s_cmul lower_to_body_min (s_addc body (1 / 10 ^ 12)));
          small_upper = s_le upper (s_mulc rng upper_max_pct);
          body_near_top = s_ge (s_maximum opn cl) (s_sub hi (s_mulc rng 0.25))
      in b_and (b_and (b_and small_body long_lower) small_upper) body_near_top)"

definition is_inverted_hammer ::
  "series \<Rightarrow> series \<Rightarrow> series \<Rightarrow> series \<Rightarrow> real \<Rightarrow> real \<Rightarrow> real \<Rightarrow> bseries" where
  "is_inverted_hammer opn hi lo cl body_max_pct upper_to_body_min lower_max_pct =
     (let rng = candle_range hi lo;
          body = candle_body opn cl;
          upper = candle_upper opn hi cl;
          lower = candle_lower opn lo cl;
          small_body = s_le body (s_mulc rng body_max_pct);
          long_upper = s_ge upper (s_cmul upper_to_body_min (s_addc body (1 / 10 ^ 12)));
          small_lower = s_le lower (s_mulc rng lower_max_pct);
          body_near_bottom = s_le (s_minimum opn cl) (s_add lo (s_mulc rng 0.25))
      in b_and (b_and (b_and small_body long_upper) small_lower) body_near_bottom)"

definition is_shooting_star ::
  "series \<Rightarrow> series \<Rightarrow> series \<Rightarrow> series \<Rightarrow> real \<Rightarrow> real \<Rightarrow> real \<Rightarrow> bseries" where
  "is_shooting_star opn hi lo cl body_max_pct upper_to_body_min lower_max_pct =
     is_inverted_hammer opn hi lo cl body_max_pct upper_to_body_min lower_max_pct"

definition bullish_engulfing :: "series \<Rightarrow> series \<Rightarrow> series \<Rightarrow> series \<Rightarrow> bseries" where
  "bullish_engulfing prev_o prev_c opn cl =
     b_and (b_and (b_and (s_gt cl opn) (s_lt prev_c prev_o)) (s_le opn prev_c)) (s_ge cl prev_o)"

definition bearish_engulfing :: "series \<Rightarrow> series \<Rightarrow> series \<Rightarrow> series \<Rightarrow> bseries" where
  "bearish_engulfing prev_o prev_c opn cl =
     b_and (b_and (b_and (s_lt cl opn) (s_gt prev_c prev_o)) (s_ge opn prev_c)) (s_le cl prev_o)"


section \<open>Signal constructors (strategies_momentum.py)\<close>

text \<open>
  A row of the augmented frame: the bar and the indicator columns that
  \<open>compute_indicators\<close> adds. \<open>df["close"]\<close> is \<open>map c_close df\<close>.
\<close>

record row =
  c_open :: fl
  c_high :: fl
  c_low :: fl
  c_close :: fl
  c_ema20 :: fl
  c_macd_line :: fl
  c_macd_signal :: fl
  c_macd_hist :: fl
  c_cci :: fl

text \<open>
  The keyword arguments \<open>macd_fast\<close>, \<open>macd_slow\<close> and \<open>macd_signal\<close> of
  \<open>momentum_entries\<close> are not read by its body and are left out. The detectors are
  called with their default thresholds, as in the source. The final
  \<open>fillna(False)\<close> changes nothing: a boolean column has no \<open>NaN\<close>.
\<close>

definition momentum_entries ::
  "row list \<Rightarrow> real \<Rightarrow> real \<Rightarrow> bool \<Rightarrow> string list \<Rightarrow> bseries" where
  "momentum_entries df doji_body_pct cci_entry confirm_break_high use_patterns =
     (let opn = map c_open df; hi = map c_high df; lo = map c_low df; cl = map c_close df;
          prev_o = shift1 opn; prev_h = shift1 hi; prev_l = shift1 lo; prev_c = shift1 cl;
          patt0 = replicate (length df) False;
          patt1 = (if ''doji'' \<in> set use_patterns
                   then b_or patt0 (is_doji prev_o prev_h prev_l prev_c doji_body_pct)
                   else patt0);
          patt2 = (if ''hammer'' \<in> set use_patterns
                   then b_or patt1 (is_hammer prev_o prev_h prev_l prev_c 0.35 2.0 0.25)
                   else patt1);
          patt3 = (if ''inverted_hammer'' \<in> set use_patterns
                   then b_or patt2 (is_inverted_hammer prev_o prev_h prev_l prev_c 0.35 2.0 0.25)
                   else patt2);
          patt_prev = (if ''bullish_engulfing'' \<in> set use_patterns
                   then b_or patt3
                          (bullish_engulfing (shift1 prev_o) (shift1 prev_c) prev_o prev_c)
                   else patt3);
          macd_line = map c_macd_line df; macd_sig = map c_macd_signal df;
          cci_v = map c_cci df;
          cond = b_and (b_and patt_prev (s_gt macd_line macd_sig)) (s_gtc cci_v cci_entry)
      in if confirm_break_high then b_and cond (s_gt cl prev_h) else cond)"

definition default_use_patterns :: "string list" where
  "default_use_patterns = [''doji'', ''hammer'', ''inverted_hammer'', ''bullish_engulfing'']"

definition momentum_exit_flip :: "row list \<Rightarrow> real \<Rightarrow> string list \<Rightarrow> bseries" where
  "momentum_exit_flip df cci_exit include_patterns =
     (let opn = map c_open df; hi = map c_high df; lo = map c_low df; cl = map c_close df;
          prev_o = shift1 opn; prev_c = shift1 cl;
          macd_line = map c_macd_line df; macd_sig = map c_macd_signal df;
          cci_v = map c_cci df;
          cross_down = b_and (s_le macd_line macd_sig)
                             (s_gt (shift1 macd_line) (shift1 macd_sig));
          momentum_flip = b_and cross_down (s_ltc cci_v cci_exit);
          bearish0 = replicate (length df) False;
          bearish1 = (if ''shooting_star'' \<in> set include_patterns
                      then b_or bearish0 (is_shooting_star opn hi lo cl 0.35 2.0 0.25)
                      else bearish0);
          bearish = (if ''bearish_engulfing'' \<in> set include_patterns
                      then b_or bearish1 (bearish_engulfing prev_o prev_c opn cl)
                      else bearish1)
      in b_or momentum_flip bearish)"

definition default_include_patterns :: "string list" where
  "default_include_patterns = [''shooting_star'', ''bearish_engulfing'']"

text \<open>
  The entry rule in the words of the specification, for bar \<open>i\<close> of an augmented frame:
  the previous bar matches one of the default patterns (the engulfing pattern taken
  for bar \<open>i - 1\<close> against bar \<open>i - 2\<close>), the MACD line is above its signal, the CCI is
  above 0 and the close is above the previous high.
\<close>

definition spec_entry_rule :: "row list \<Rightarrow> nat \<Rightarrow> bool" where
  "spec_entry_rule df i =
     (let opn = map c_open df; hi = map c_high df; lo = map c_low df; cl = map c_close df
      in 0 < i
         \<and> (is_doji opn hi lo cl 0.20 ! (i - 1)
            \<or> is_hammer opn hi lo cl 0.35 2.0 0.25 ! (i - 1)
            \<or> is_inverted_hammer opn hi lo cl 0.35 2.0 0.25 ! (i - 1)
            \<or> bullish_engulfing (shift1 opn) (shift1 cl) opn cl ! (i - 1))
         \<and> fgt (c_macd_line (df ! i)) (c_macd_signal (df ! i))
         \<and> fgt (c_cci (df ! i)) (Fin 0)
         \<and> fgt (c_close (df ! i)) (c_high (df ! (i - 1))))"


section \<open>Indicator engine (strategies_momentum.py)\<close>

text \<open>
  A bar as the provider delivers it: finite prices. \<open>ema\<close> is
  \<open>s.ewm(span=n, adjust=False).mean()\<close> on such a column: the first value seeds the
  average, and every later value enters with weight \<open>2 / (n + 1)\<close>.
\<close>

record bar =
  b_open :: real
  b_high :: real
  b_low :: real
  b_close :: real
  b_volume :: real

fun ema_from :: "real \<Rightarrow> real \<Rightarrow> real list \<Rightarrow> real list" where
  "ema_from a y [] = []"
| "ema_from a y (x # xs) = ((1 - a) * y + a * x) # ema_from a ((1 - a) * y + a * x) xs"

definition ema :: "real list \<Rightarrow> nat \<Rightarrow> real list" where
  "ema s n = (case s of [] \<Rightarrow> [] | x # xs \<Rightarrow> x # ema_from (2 / (real n + 1)) x xs)"

definition macd ::
  "real list \<Rightarrow> nat \<Rightarrow> nat \<Rightarrow> nat \<Rightarrow> real list \<times> real list \<times> real list" where
  "macd close fast slow signal =
     (let ema_fast = ema close fast;
          ema_slow = ema close slow;
          macd_line = map2 (-) ema_fast ema_slow;
          macd_signal = ema macd_line signal;
          macd_hist = map2 (-) macd_line macd_signal
      in (macd_line, macd_signal, macd_hist))"

text \<open>
  \<open>s.rolling(n).mean()\<close>: \<open>NaN\<close> until \<open>n\<close> values are in the window, and \<open>NaN\<close> when
  a value of the window is \<open>NaN\<close> (the sum of the window propagates it).
\<close>

definition window_mean :: "series \<Rightarrow> fl" where
  "window_mean w =
     (if w = [] then NaN else fdiv (foldr fadd w (Fin 0)) (Fin (real (length w))))"

definition rolling_mean :: "nat \<Rightarrow> series \<Rightarrow> series" where
  "rolling_mean n xs =
     map (\<lambda>i. if i + 1 < n then NaN else window_mean (take n (drop (i + 1 - n) xs)))
       [0..<length xs]"

text \<open>\<open>s.replace(a, b)\<close>.\<close>

definition s_replace :: "series \<Rightarrow> real \<Rightarrow> real \<Rightarrow> series" where
  "s_replace xs a b = map (\<lambda>x. if x = Fin a then Fin b else x) xs"

text \<open>
  \<open>cci(df, n)\<close> reads the columns \<open>high\<close>, \<open>low\<close> and \<open>close\<close> of the frame, which are
  its first three arguments here. Its locals \<open>tp\<close>, \<open>ma\<close> and \<open>md\<close> are the next three
  definitions; \<open>cci_dev\<close> is \<open>md\<close> before the \<open>replace\<close>.
\<close>

definition cci_tp :: "series \<Rightarrow> series \<Rightarrow> series \<Rightarrow> series" where
  "cci_tp hi lo cl = s_divc (s_add (s_add hi lo) cl) 3.0"

definition cci_ma :: "series \<Rightarrow> series \<Rightarrow> series \<Rightarrow> nat \<Rightarrow> series" where
  "cci_ma hi lo cl n = rolling_mean n (cci_tp hi lo cl)"

definition cci_dev :: "series \<Rightarrow> series \<Rightarrow> series \<Rightarrow> nat \<Rightarrow> series" where
  "cci_dev hi lo cl n =
     rolling_mean n (s_abs (s_sub (cci_tp hi lo cl) (cci_ma hi lo cl n)))"

definition cci_md :: "series \<Rightarrow> series \<Rightarrow> series \<Rightarrow> nat \<Rightarrow> series" where
  "cci_md hi lo cl n = s_replace (cci_dev hi lo cl n) 0 (1 / 10 ^ 12)"

definition cci :: "series \<Rightarrow> series \<Rightarrow> series \<Rightarrow> nat \<Rightarrow> series" where
  "cci hi lo cl n =
     s_div (s_sub (cci_tp hi lo cl) (cci_ma hi lo cl n)) (s_cmul 0.015 (cci_md hi lo cl n))"

definition compute_indicators :: "bar list \<Rightarrow> nat \<Rightarrow> nat \<Rightarrow> nat \<Rightarrow> nat \<Rightarrow> row list" where
  "compute_indicators df macd_fast macd_slow macd_sig cci_len =
     (let close = map b_close df;
          ema20 = ema close 20;
          m = macd close macd_fast macd_slow macd_sig;
          m_line = fst m; m_sig = fst (snd m); m_hist = snd (snd m);
          cc = cci (map (\<lambda>b. Fin (b_high b)) df) (map (\<lambda>b. Fin (b_low b)) df)
                   (map (\<lambda>b. Fin (b_close b)) df) cci_len
      in map (\<lambda>i. \<lparr>c_open = Fin (b_open (df ! i)), c_high = Fin (b_high (df ! i)),
                    c_low = Fin (b_low (df ! i)), c_close = Fin (b_close (df ! i)),
                    c_ema20 = Fin (ema20 ! i), c_macd_line = Fin (m_line ! i),
                    c_macd_signal = Fin (m_sig ! i), c_macd_hist = Fin (m_hist ! i),
                    c_cci = cc ! i\<rparr>)
           [0..<length df])"


section \<open>Trade state machine (bot.py)\<close>

text \<open>
  \<open>momo\<close> is the \<open>momentum\<close> section of the configuration, \<open>bot_state\<close> the shared
  \<open>STATE\<close> object (its risk fields), and \<open>pos\<close> the local variables of
  \<open>analyze_and_trade\<close>. \<open>last_trailing\<close> starts as Python's \<open>None\<close>.
\<close>

record momo =
  m_macd_fast :: nat
  m_macd_slow :: nat
  m_macd_signal :: nat
  m_cci_len :: nat
  m_doji_body_pct :: real
  m_cci_entry :: real
  m_cci_exit :: real
  m_confirm_break_high :: bool

record bot_state =
  st_equity :: real
  st_r_pct :: real
  st_tp_R :: real
  st_max_loss_pct :: real
  st_cmd_risk_pct :: "real option"

record pos =
  in_pos :: bool
  p_entry :: fl
  p_stop :: fl
  p_qty :: int
  last_trailing :: "fl option"

definition initial_pos :: pos where
  "initial_pos = \<lparr>in_pos = False, p_entry = Fin 0.0, p_stop = Fin 0.0, p_qty = 0,
                   last_trailing = None\<rparr>"

text \<open>
  The messages sent to the channel. \<open>Enter\<close> carries entry, stop, pattern low, risk
  cap, quantity and risk fraction; \<open>ErrorMsg\<close> is the report of the handler that
  catches an exception raised while a bar is processed.
\<close>

datatype event =
    Enter fl fl fl fl int real
  | ExitFailSafe real
  | ExitStop fl
  | Weakening
  | ExitTakeProfit fl real
  | RaiseStop fl
  | ErrorMsg py_error

fun is_exit :: "event \<Rightarrow> bool" where
  "is_exit (ExitFailSafe m) = True"
| "is_exit (ExitStop s) = True"
| "is_exit (ExitTakeProfit t r) = True"
| "is_exit e = False"

definition used_risk_pct :: "bot_state \<Rightarrow> real" where
  "used_risk_pct STATE =
     (case st_cmd_risk_pct STATE of Some r \<Rightarrow> r | None \<Rightarrow> st_r_pct STATE)"

text \<open>
  The body of \<open>if sig_enter:\<close> while flat. The assignments to \<open>entry\<close>, \<open>stop\<close>,
  \<open>qty\<close> and \<open>STATE.max_loss_pct\<close> come before the reject test, as in the source;
  an exception of \<open>position_size\<close> leaves the handler after \<open>entry\<close> and \<open>stop\<close>
  are assigned.
\<close>

definition entry_branch ::
  "bot_state \<Rightarrow> pos \<Rightarrow> row list \<Rightarrow> fl \<Rightarrow> (bot_state \<times> pos) \<times> event list" where
  "entry_branch STATE P df price =
     (let pattern_stop = last (shift1 (map c_low df));
          used = used_risk_pct STATE;
          entry = price;
          risk_stop = fmul entry (Fin (1.0 - used));
          stop = py_max pattern_stop risk_stop
      in case position_size_float (of_fl entry) (of_fl stop) (to_float (st_equity STATE))
                (to_float used) of
           Inl e \<Rightarrow> ((STATE, P\<lparr>p_entry := entry, p_stop := stop\<rparr>), [ErrorMsg e])
         | Inr qty \<Rightarrow>
             (let STATE' = STATE\<lparr>st_max_loss_pct := used\<rparr>;
                  P' = P\<lparr>p_entry := entry, p_stop := stop, p_qty := qty\<rparr>
              in if qty \<le> 0 \<or> fle entry stop \<or> \<not> isfinite stop
                 then ((STATE', P'), [])
                 else ((STATE', P'\<lparr>in_pos := True, last_trailing := Some stop\<rparr>),
                       [Enter entry stop pattern_stop risk_stop qty used])))"

text \<open>The trailing-stop ratchet that ends the body of the \<open>else\<close> branch.\<close>

definition trailing_branch ::
  "bot_state \<Rightarrow> pos \<Rightarrow> row \<Rightarrow> event list \<Rightarrow> (bot_state \<times> pos) \<times> event list" where
  "trailing_branch STATE P lastr evs =
     (let ema20 = c_ema20 lastr;
          new_trail = py_max (p_stop P) ema20
      in if (case last_trailing P of None \<Rightarrow> True | Some t \<Rightarrow> fgt new_trail t)
         then ((STATE, P\<lparr>p_stop := new_trail, last_trailing := Some new_trail\<rparr>),
               evs @ [RaiseStop new_trail])
         else ((STATE, P), evs))"

text \<open>The body of the \<open>else\<close> branch: the checks made on a bar while long.\<close>

definition long_branch ::
  "bot_state \<Rightarrow> pos \<Rightarrow> row \<Rightarrow> fl \<Rightarrow> bool \<Rightarrow> (bot_state \<times> pos) \<times> event list" where
  "long_branch STATE P lastr price exit_flip =
     (if immediate_stop_hit price (p_entry P) (Fin (st_max_loss_pct STATE))
      then ((STATE, P\<lparr>in_pos := False\<rparr>), [ExitFailSafe (st_max_loss_pct STATE)])
      else if fle (c_low lastr) (p_stop P)
      then ((STATE, P\<lparr>in_pos := False\<rparr>), [ExitStop (p_stop P)])
      else
        (let evs = (if exit_flip then [Weakening] else []) in
         if st_tp_R STATE \<noteq> 0 \<and> st_tp_R STATE > 0
         then
           (let r = fsub (p_entry P) (p_stop P);
                target = fadd (p_entry P) (fmul (Fin (st_tp_R STATE)) r)
            in if fge price target
               then ((STATE, P\<lparr>in_pos := False\<rparr>),
                     evs @ [ExitTakeProfit target (st_tp_R STATE)])
               else trailing_branch STATE P lastr evs)
         else trailing_branch STATE P lastr evs))"

text \<open>One iteration of the loop over the frames of the provider.\<close>

definition analyze_bar ::
  "momo \<Rightarrow> bot_state \<times> pos \<Rightarrow> bar list \<Rightarrow> (bot_state \<times> pos) \<times> event list" where
  "analyze_bar MOMO sp df0 =
     (let STATE = fst sp; P = snd sp;
          df = compute_indicators df0 (m_macd_fast MOMO) (m_macd_slow MOMO)
                 (m_macd_signal MOMO) (m_cci_len MOMO)
      in if df = [] \<or> length df < 30 then ((STATE, P), [])
         else
           (let lastr = last df;
                price = c_close lastr;
                sig_enter = last (momentum_entries df (m_doji_body_pct MOMO)
                                    (m_cci_entry MOMO) (m_confirm_break_high MOMO)
                                    default_use_patterns);
                exit_flip = last (momentum_exit_flip df (m_cci_exit MOMO)
                                    default_include_patterns)
            in if \<not> in_pos P
               then (if sig_enter then entry_branch STATE P df price else ((STATE, P), []))
               else long_branch STATE P lastr price exit_flip))"

text \<open>
  The commands \<open>!risk\<close> and \<open>!sl\<close> change the shared state between two bars. \<open>trace\<close>
  lists the states of the machine: before the first frame and after each frame.
\<close>

datatype command = CmdRisk real | CmdSl real

fun apply_command :: "bot_state \<Rightarrow> command \<Rightarrow> bot_state" where
  "apply_command STATE (CmdRisk pct) = STATE\<lparr>st_r_pct := pct\<rparr>"
| "apply_command STATE (CmdSl pct) = STATE\<lparr>st_max_loss_pct := pct\<rparr>"

definition next_state ::
  "momo \<Rightarrow> bot_state \<times> pos \<Rightarrow> command list \<times> bar list \<Rightarrow> bot_state \<times> pos" where
  "next_state MOMO sp inp =
     fst (analyze_bar MOMO (foldl apply_command (fst sp) (fst inp), snd sp) (snd inp))"

fun trace ::
  "momo \<Rightarrow> bot_state \<times> pos \<Rightarrow> (command list \<times> bar list) list \<Rightarrow> (bot_state \<times> pos) list"
  where
  "trace MOMO sp [] = [sp]"
| "trace MOMO sp (inp # rest) = sp # trace MOMO (next_state MOMO sp inp) rest"

text \<open>
  The trailing-stop ratchet in the words of the specification, as a relation between
  the position before and after a bar: the stop is kept, or it is raised to the
  candidate \<open>max(stop, EMA20)\<close>, which then exceeds the trailing high-water mark
  (if there is one) and becomes the new mark.
\<close>

definition kept_or_ratcheted :: "pos \<Rightarrow> fl \<Rightarrow> pos \<Rightarrow> bool" where
  "kept_or_ratcheted P ema20 P' =
     (p_stop P' = p_stop P
      \<or> (p_stop P' = py_max (p_stop P) ema20
         \<and> (case last_trailing P of None \<Rightarrow> True | Some t \<Rightarrow> fgt (p_stop P') t)
         \<and> last_trailing P' = Some (p_stop P')))"

text \<open>
  \<open>analyze_and_trade\<close> starts flat, with \<open>entry = stop = 0.0\<close>, \<open>qty = 0\<close> and no
  trailing mark, and runs the loop over the frames it is given.
\<close>

definition analyze_and_trade ::
  "momo \<Rightarrow> bot_state \<Rightarrow> (command list \<times> bar list) list \<Rightarrow> (bot_state \<times> pos) list" where
  "analyze_and_trade MOMO STATE inputs = trace MOMO (STATE, initial_pos) inputs"


section \<open>Example frames\<close>

text \<open>Small frames on which the theorems below are exercised.\<close>

definition mk_row :: "real \<Rightarrow> real \<Rightarrow> real \<Rightarrow> real \<Rightarrow> fl \<Rightarrow> fl \<Rightarrow> fl \<Rightarrow> row" where
  "mk_row opn hi lo cl ml ms cc =
     \<lparr>c_open = Fin opn, c_high = Fin hi, c_low = Fin lo, c_close = Fin cl, c_ema20 = Fin cl,
      c_macd_line = ml, c_macd_signal = ms, c_macd_hist = fsub ml ms, c_cci = cc\<rparr>"

definition breakout_frame :: "row list" where
  "breakout_frame =
     [mk_row 100 100 100 100 (Fin 0) (Fin 0) NaN,
      mk_row 100 101 99 100 (Fin 0) (Fin 0) NaN,
      mk_row 100 103 100 102 (Fin 1) (Fin 0.5) (Fin 50)]"

definition flat_frame :: "row list" where
  "flat_frame = [mk_row 10 10 10 10 (Fin 0) (Fin 0) NaN]"

definition malformed_frame :: "row list" where
  "malformed_frame = [mk_row 11 10 10 11 (Fin 0) (Fin 0) NaN]"


text \<open>
  Frames of raw bars for the state machine: 28 flat bars, a doji and a breakout bar
  (\<open>entry_bars\<close>), the same followed by a quiet bar (\<open>hold_bars\<close>), and flat bars
  followed by a collapse (\<open>crash_bars\<close>) or by a dip to the stop (\<open>stop_bars\<close>).
\<close>

definition mk_bar :: "real \<Rightarrow> real \<Rightarrow> real \<Rightarrow> real \<Rightarrow> bar" where
  "mk_bar opn hi lo cl = \<lparr>b_open = opn, b_high = hi, b_low = lo, b_close = cl, b_volume = 1000\<rparr>"

definition default_momo :: momo where
  "default_momo = \<lparr>m_macd_fast = 12, m_macd_slow = 26, m_macd_signal = 9, m_cci_len = 14,
     m_doji_body_pct = 0.20, m_cci_entry = 0, m_cci_exit = 0, m_confirm_break_high = True\<rparr>"

definition default_state :: bot_state where
  "default_state = \<lparr>st_equity = 10000, st_r_pct = 0.01, st_tp_R = 0.0, st_max_loss_pct = 0.02,
     st_cmd_risk_pct = None\<rparr>"

definition entry_bars :: "bar list" where
  "entry_bars = replicate 28 (mk_bar 100 100 100 100) @ [mk_bar 100 101 99 100, mk_bar 100 103 100 102]"

definition poor_state :: bot_state where
  "poor_state = \<lparr>st_equity = 100, st_r_pct = 0.01, st_tp_R = 0.0, st_max_loss_pct = 0.02,
     st_cmd_risk_pct = None\<rparr>"

definition overflow_state :: bot_state where
  "overflow_state = \<lparr>st_equity = 10000, st_r_pct = 10 ^ 305, st_tp_R = 0.0,
     st_max_loss_pct = 0.02, st_cmd_risk_pct = None\<rparr>"

definition long_pos :: pos where
  "long_pos = \<lparr>in_pos = True, p_entry = Fin 102, p_stop = Fin 100.98, p_qty = 98,
     last_trailing = Some (Fin 100.98)\<rparr>"

definition hold_bars :: "bar list" where
  "hold_bars = entry_bars @ [mk_bar 102 104 101.5 103]"

definition crash_bars :: "bar list" where
  "crash_bars = replicate 29 (mk_bar 100 100 100 100) @ [mk_bar 95 95 90 90]"

definition stop_bars :: "bar list" where
  "stop_bars = replicate 29 (mk_bar 100 100 100 100) @ [mk_bar 101 101.5 100.5 101]"

definition example_inputs :: "(command list \<times> bar list) list" where
  "example_inputs = [([], entry_bars), ([], hold_bars)]"


section \<open>Properties of the risk module\<close>

lemma risk_per_share_Fin:
  "risk_per_share (Fin e) (Fin s) = Fin (max (1 / 100) (e - s))"
  by (simp add: risk_per_share_def py_max_def max_def)

lemma risk_dollars_Fin:
  "risk_dollars (Fin q) (Fin r) = Fin (max 0 (q * r))"
  by (simp add: risk_dollars_def py_max_def max_def)

lemma risk_per_share_lower:
  "\<exists>x. risk_per_share entry stop = Fin x \<and> 1 / 100 \<le> x"
proof (cases "fgt (fsub entry stop) (Fin 0.01)")
  case True
  then obtain d where "fsub entry stop = Fin d" "1 / 100 < d"
    by (cases "fsub entry stop") auto
  then show ?thesis by (simp add: risk_per_share_def py_max_def)
next
  case False
  then have "risk_per_share entry stop = Fin (1 / 100)"
    by (simp add: risk_per_share_def py_max_def)
  then show ?thesis by (intro exI[of _ "1 / 100"]) simp
qed

lemma risk_dollars_lower:
  "\<exists>x. risk_dollars equity r_pct = Fin x \<and> 0 \<le> x"
proof (cases "fgt (fmul equity r_pct) (Fin 0)")
  case True
  then obtain d where "fmul equity r_pct = Fin d" "0 < d"
    by (cases "fmul equity r_pct") auto
  then show ?thesis by (simp add: risk_dollars_def py_max_def)
next
  case False
  then have "risk_dollars equity r_pct = Fin 0"
    by (simp add: risk_dollars_def py_max_def)
  then show ?thesis by simp
qed

lemma position_size_Fin:
  "position_size (Fin e) (Fin s) (Fin q) (Fin r)
     = Inr \<lfloor>max 0 (q * r) / max (1 / 100) (e - s)\<rfloor>"
proof -
  have pos: "0 < max (1 / 100) (e - s)" by (simp add: max_def)
  have nn: "0 \<le> max 0 (q * r) / max (1 / 100) (e - s)"
    using pos by (simp add: divide_nonneg_pos)
  show ?thesis
    using pos nn
    by (simp add: position_size_def risk_per_share_Fin risk_dollars_Fin py_truediv_def)
qed



lemma float_max_bounds: "10 ^ 308 \<le> float_max" "float_max < 10 ^ 309" "0 < float_max"
  by (simp_all add: float_max_def)

lemma to_float_in_range: "\<bar>x\<bar> \<le> float_max \<Longrightarrow> to_float x = PFin x"
  by (auto simp: to_float_def)

lemma to_float_small: "\<bar>x\<bar> \<le> 10 ^ 308 \<Longrightarrow> to_float x = PFin x"
  using float_max_bounds(1) by (intro to_float_in_range) linarith






lemma position_size_float_in_range:
  assumes "\<bar>e - s\<bar> \<le> float_max" and "\<bar>q * r\<bar> \<le> float_max"
      and "max 0 (q * r) / max (1 / 100) (e - s) \<le> float_max"
  shows "position_size_float (PFin e) (PFin s) (PFin q) (PFin r)
     = Inr \<lfloor>max 0 (q * r) / max (1 / 100) (e - s)\<rfloor>"
proof -
  have rps: "risk_per_share_float (PFin e) (PFin s) = PFin (max (1 / 100) (e - s))"
    using to_float_in_range[OF assms(1)]
    by (simp add: risk_per_share_float_def pf_max_def max_def)
  have rd: "risk_dollars_float (PFin q) (PFin r) = PFin (max 0 (q * r))"
    using to_float_in_range[OF assms(2)]
    by (simp add: risk_dollars_float_def pf_max_def max_def)
  have pos: "0 < max (1 / 100) (e - s)" by (simp add: max_def)
  have nn: "0 \<le> max 0 (q * r) / max (1 / 100) (e - s)"
    using pos by (simp add: divide_nonneg_pos)
  have "\<bar>max 0 (q * r) / max (1 / 100) (e - s)\<bar> \<le> float_max"
    using nn assms(3) by simp
  from to_float_in_range[OF this] show ?thesis
    using pos nn by (simp add: position_size_float_def rps rd pf_truediv_def)
qed

lemma position_size_float_exact:
  assumes "\<bar>e - s\<bar> \<le> float_max" and "\<bar>q * r\<bar> \<le> float_max"
      and "max 0 (q * r) / max (1 / 100) (e - s) \<le> float_max"
  shows "position_size_float (PFin e) (PFin s) (PFin q) (PFin r)
     = position_size (Fin e) (Fin s) (Fin q) (Fin r)"
  using position_size_float_in_range[OF assms] by (simp add: position_size_Fin)



lemma le_float_max: "x \<le> 10 ^ 308 \<Longrightarrow> x \<le> float_max"
  using float_max_bounds(1) by linarith






text \<open>
  Claim C6, as amended. \<open>immediate_stop_hit(price, entry, max_loss_fraction)\<close> is true
  if and only if \<open>price \<le> entry * (1 - max_loss_fraction + 1e-12)\<close>: the threshold
  carries a tolerance of \<open>1e-12\<close>.
\<close>

theorem immediate_stop_hit_iff:
  "immediate_stop_hit (Fin p) (Fin e) (Fin m) \<longleftrightarrow> p \<le> e * (1 - m + 1 / 10 ^ 12)"
  by (simp add: immediate_stop_hit_def)

text \<open>
  Without the tolerance the claim fails: a price just above \<open>entry * (1 - 0)\<close> still
  trips the fail-safe.
\<close>

theorem immediate_stop_hit_counterexample:
  "immediate_stop_hit (Fin 100.00000000005) (Fin 100) (Fin 0)
   \<and> \<not> (100.00000000005 \<le> (100::real) * (1 - 0))"
  by (simp add: immediate_stop_hit_def)


section \<open>Properties of the detectors and of the entry signal\<close>

lemma shift1_length [simp]: "length (shift1 xs) = length xs"
  by (simp add: shift1_def)

lemma shift1_nth:
  "i < length xs \<Longrightarrow> shift1 xs ! i = (if i = 0 then NaN else xs ! (i - 1))"
  by (cases i) (simp_all add: shift1_def)

lemma series_length [simp]:
  "length (s_add xs ys) = min (length xs) (length ys)"
  "length (s_sub xs ys) = min (length xs) (length ys)"
  "length (s_div xs ys) = min (length xs) (length ys)"
  "length (s_abs xs) = length xs"
  "length (s_addc xs k) = length xs"
  "length (s_mulc xs k) = length xs"
  "length (s_cmul k xs) = length xs"
  "length (s_divc xs k) = length xs"
  "length (s_gtc xs k) = length xs"
  "length (s_ltc xs k) = length xs"
  "length (s_lt xs ys) = min (length xs) (length ys)"
  "length (s_le xs ys) = min (length xs) (length ys)"
  "length (s_gt xs ys) = min (length xs) (length ys)"
  "length (s_ge xs ys) = min (length xs) (length ys)"
  "length (s_maximum xs ys) = min (length xs) (length ys)"
  "length (s_minimum xs ys) = min (length xs) (length ys)"
  "length (b_and bs cs) = min (length bs) (length cs)"
  "length (b_or bs cs) = min (length bs) (length cs)"
  by (simp_all add: s_add_def s_sub_def s_div_def s_abs_def s_addc_def s_mulc_def s_cmul_def
      s_divc_def s_gtc_def s_ltc_def s_lt_def s_le_def s_gt_def s_ge_def s_maximum_def
      s_minimum_def b_and_def b_or_def)

lemma series_nth:
  "i < length xs \<Longrightarrow> i < length ys \<Longrightarrow> s_add xs ys ! i = fadd (xs ! i) (ys ! i)"
  "i < length xs \<Longrightarrow> i < length ys \<Longrightarrow> s_sub xs ys ! i = fsub (xs ! i) (ys ! i)"
  "i < length xs \<Longrightarrow> i < length ys \<Longrightarrow> s_div xs ys ! i = fdiv (xs ! i) (ys ! i)"
  "i < length xs \<Longrightarrow> s_abs xs ! i = fabs (xs ! i)"
  "i < length xs \<Longrightarrow> s_addc xs k ! i = fadd (xs ! i) (Fin k)"
  "i < length xs \<Longrightarrow> s_mulc xs k ! i = fmul (xs ! i) (Fin k)"
  "i < length xs \<Longrightarrow> s_cmul k xs ! i = fmul (Fin k) (xs ! i)"
  "i < length xs \<Longrightarrow> s_divc xs k ! i = fdiv (xs ! i) (Fin k)"
  "i < length xs \<Longrightarrow> s_gtc xs k ! i = fgt (xs ! i) (Fin k)"
  "i < length xs \<Longrightarrow> s_ltc xs k ! i = flt (xs ! i) (Fin k)"
  "i < length xs \<Longrightarrow> i < length ys \<Longrightarrow> s_lt xs ys ! i = flt (xs ! i) (ys ! i)"
  "i < length xs \<Longrightarrow> i < length ys \<Longrightarrow> s_le xs ys ! i = fle (xs ! i) (ys ! i)"
  "i < length xs \<Longrightarrow> i < length ys \<Longrightarrow> s_gt xs ys ! i = fgt (xs ! i) (ys ! i)"
  "i < length xs \<Longrightarrow> i < length ys \<Longrightarrow> s_ge xs ys ! i = fge (xs ! i) (ys ! i)"
  "i < length xs \<Longrightarrow> i < length ys \<Longrightarrow> s_maximum xs ys ! i = np_maximum (xs ! i) (ys ! i)"
  "i < length xs \<Longrightarrow> i < length ys \<Longrightarrow> s_minimum xs ys ! i = np_minimum (xs ! i) (ys ! i)"
  "i < length bs \<Longrightarrow> i < length cs \<Longrightarrow> b_and bs cs ! i = (bs ! i \<and> cs ! i)"
  "i < length bs \<Longrightarrow> i < length cs \<Longrightarrow> b_or bs cs ! i = (bs ! i \<or> cs ! i)"
  by (simp_all add: s_add_def s_sub_def s_div_def s_abs_def s_addc_def s_mulc_def s_cmul_def
      s_divc_def s_gtc_def s_ltc_def s_lt_def s_le_def s_gt_def s_ge_def s_maximum_def
      s_minimum_def b_and_def b_or_def)

lemma detector_length [simp]:
  assumes "length hi = length opn" "length lo = length opn" "length cl = length opn"
  shows "length (is_doji opn hi lo cl p) = length opn"
    and "length (is_hammer opn hi lo cl a b c) = length opn"
    and "length (is_inverted_hammer opn hi lo cl a b c) = length opn"
    and "length (is_shooting_star opn hi lo cl a b c) = length opn"
  using assms
  by (simp_all add: is_doji_def is_hammer_def is_inverted_hammer_def is_shooting_star_def
      candle_range_def candle_body_def candle_upper_def candle_lower_def Let_def)

lemma engulfing_length [simp]:
  assumes "length po = length opn" "length pc = length opn" "length cl = length opn"
  shows "length (bullish_engulfing po pc opn cl) = length opn"
    and "length (bearish_engulfing po pc opn cl) = length opn"
  using assms by (simp_all add: bullish_engulfing_def bearish_engulfing_def)

text \<open>Each detector reads only row i of its columns.\<close>

lemma is_doji_nth:
  assumes "i < n" "length opn = n" "length hi = n" "length lo = n" "length cl = n"
  shows "is_doji opn hi lo cl p ! i =
     (fgt (fabs (fsub (hi ! i) (lo ! i))) (Fin 0)
      \<and> fle (fabs (fsub (cl ! i) (opn ! i))) (fmul (fabs (fsub (hi ! i) (lo ! i))) (Fin p)))"
  using assms
  by (simp add: is_doji_def candle_range_def candle_body_def Let_def series_nth)

lemma is_hammer_nth:
  assumes "i < n" "length opn = n" "length hi = n" "length lo = n" "length cl = n"
  shows "is_hammer opn hi lo cl a b c ! i =
     (fle (fabs (fsub (cl ! i) (opn ! i))) (fmul (fabs (fsub (hi ! i) (lo ! i))) (Fin a))
      \<and> fge (fsub (np_minimum (opn ! i) (cl ! i)) (lo ! i))
             (fmul (Fin b) (fadd (fabs (fsub (cl ! i) (opn ! i))) (Fin (1 / 10 ^ 12))))
      \<and> fle (fsub (hi ! i) (np_maximum (opn ! i) (cl ! i)))
             (fmul (fabs (fsub (hi ! i) (lo ! i))) (Fin c))
      \<and> fge (np_maximum (opn ! i) (cl ! i))
             (fsub (hi ! i) (fmul (fabs (fsub (hi ! i) (lo ! i))) (Fin 0.25))))"
  using assms
  by (simp add: is_hammer_def candle_range_def candle_body_def candle_upper_def
      candle_lower_def Let_def series_nth conj_assoc)

lemma is_inverted_hammer_nth:
  assumes "i < n" "length opn = n" "length hi = n" "length lo = n" "length cl = n"
  shows "is_inverted_hammer opn hi lo cl a b c ! i =
     (fle (fabs (fsub (cl ! i) (opn ! i))) (fmul (fabs (fsub (hi ! i) (lo ! i))) (Fin a))
      \<and> fge (fsub (hi ! i) (np_maximum (opn ! i) (cl ! i)))
             (fmul (Fin b) (fadd (fabs (fsub (cl ! i) (opn ! i))) (Fin (1 / 10 ^ 12))))
      \<and> fle (fsub (np_minimum (opn ! i) (cl ! i)) (lo ! i))
             (fmul (fabs (fsub (hi ! i) (lo ! i))) (Fin c))
      \<and> fle (np_minimum (opn ! i) (cl ! i))
             (fadd (lo ! i) (fmul (fabs (fsub (hi ! i) (lo ! i))) (Fin 0.25))))"
  using assms
  by (simp add: is_inverted_hammer_def candle_range_def candle_body_def candle_upper_def
      candle_lower_def Let_def series_nth conj_assoc)

lemma bullish_engulfing_nth:
  assumes "i < n" "length po = n" "length pc = n" "length opn = n" "length cl = n"
  shows "bullish_engulfing po pc opn cl ! i =
     (fgt (cl ! i) (opn ! i) \<and> flt (pc ! i) (po ! i) \<and> fle (opn ! i) (pc ! i)
      \<and> fge (cl ! i) (po ! i))"
  using assms by (simp add: bullish_engulfing_def series_nth conj_assoc)

lemma bearish_engulfing_nth:
  assumes "i < n" "length po = n" "length pc = n" "length opn = n" "length cl = n"
  shows "bearish_engulfing po pc opn cl ! i =
     (flt (cl ! i) (opn ! i) \<and> fgt (pc ! i) (po ! i) \<and> fge (opn ! i) (pc ! i)
      \<and> fle (cl ! i) (po ! i))"
  using assms by (simp add: bearish_engulfing_def series_nth conj_assoc)

text \<open>
  Claim C1. On every augmented frame the entry signal of \<open>momentum_entries\<close> with its
  default parameters is, at bar \<open>i\<close>, exactly the entry rule: bar \<open>i - 1\<close> matches one
  of the default patterns, the MACD line is above its signal, the CCI is above 0 and
  the close is above the previous high; a comparison with \<open>NaN\<close> is false, so the
  signal is false at bar 0.
\<close>

theorem momentum_entries_default_nth:
  assumes "i < length df"
  shows "momentum_entries df 0.20 0 True default_use_patterns ! i = spec_entry_rule df i"
proof (cases i)
  case 0
  then show ?thesis using assms
    by (simp add: momentum_entries_def spec_entry_rule_def default_use_patterns_def Let_def
       series_nth shift1_nth  is_doji_nth[where n="length df"] is_hammer_nth[where n="length df"]
       is_inverted_hammer_nth[where n="length df"] bullish_engulfing_nth[where n="length df"])
next
  case (Suc j)
  then show ?thesis using assms
    by (simp add: momentum_entries_def spec_entry_rule_def default_use_patterns_def Let_def
       series_nth shift1_nth  is_doji_nth[where n="length df"] is_hammer_nth[where n="length df"]
       is_inverted_hammer_nth[where n="length df"] bullish_engulfing_nth[where n="length df"])
qed


theorem momentum_entries_default_nth_witness:
  "2 < length breakout_frame
   \<and> (momentum_entries breakout_frame 0.20 0 True default_use_patterns ! 2
        \<longleftrightarrow> spec_entry_rule breakout_frame 2)
   \<and> spec_entry_rule breakout_frame 2"
proof -
  have h: "2 < length breakout_frame" by (simp add: breakout_frame_def)
  have r1: "breakout_frame ! Suc 0 = mk_row 100 101 99 100 (Fin 0) (Fin 0) NaN"
    by (simp add: breakout_frame_def)
  have r2: "breakout_frame ! 2 = mk_row 100 103 100 102 (Fin 1) (Fin 0.5) (Fin 50)"
    by (simp add: breakout_frame_def)
  have len: "length breakout_frame = 3" by (simp add: breakout_frame_def)
  have doji: "is_doji (map c_open breakout_frame) (map c_high breakout_frame)
      (map c_low breakout_frame) (map c_close breakout_frame) 0.20 ! Suc 0"
    by (subst is_doji_nth[where n=3]) (simp_all add: len r1 mk_row_def)
  have "spec_entry_rule breakout_frame 2"
    unfolding spec_entry_rule_def Let_def
    using doji by (simp add: r1 r2 mk_row_def)
  then show ?thesis using h momentum_entries_default_nth [OF h] by simp
qed

text \<open>
  Claim C8, as amended. On a candle with \<open>high = low\<close>, \<open>is_doji\<close> is false for any
  open and close. \<open>is_hammer\<close> is false unless open and close both lie above the high,
  and \<open>is_inverted_hammer\<close> and \<open>is_shooting_star\<close> are false unless open and close
  both lie below the low; so all four are false on every zero-range candle whose open
  and close lie within the range. The detectors contain no division.
\<close>

theorem flat_candle_detectors:
  assumes "i < length df" and "c_high (df ! i) = Fin x" and "c_low (df ! i) = Fin x"
  shows "\<not> is_doji (map c_open df) (map c_high df) (map c_low df) (map c_close df) p ! i
    \<and> (is_hammer (map c_open df) (map c_high df) (map c_low df) (map c_close df)
          0.35 2.0 0.25 ! i
        \<longrightarrow> fgt (c_open (df ! i)) (Fin x) \<and> fgt (c_close (df ! i)) (Fin x))
    \<and> (is_inverted_hammer (map c_open df) (map c_high df) (map c_low df) (map c_close df)
          0.35 2.0 0.25 ! i
        \<longrightarrow> flt (c_open (df ! i)) (Fin x) \<and> flt (c_close (df ! i)) (Fin x))
    \<and> (is_shooting_star (map c_open df) (map c_high df) (map c_low df) (map c_close df)
          0.35 2.0 0.25 ! i
        \<longrightarrow> flt (c_open (df ! i)) (Fin x) \<and> flt (c_close (df ! i)) (Fin x))"
proof -
  have doji: "\<not> is_doji (map c_open df) (map c_high df) (map c_low df) (map c_close df) p ! i"
    using assms by (simp add: is_doji_nth[where n="length df"])
  have hammer: "fgt (c_open (df ! i)) (Fin x) \<and> fgt (c_close (df ! i)) (Fin x)"
    if "is_hammer (map c_open df) (map c_high df) (map c_low df) (map c_close df)
          0.35 2.0 0.25 ! i"
    using that assms
    by (cases "c_open (df ! i)"; cases "c_close (df ! i)")
       (auto simp: is_hammer_nth[where n="length df"])
  have inv: "flt (c_open (df ! i)) (Fin x) \<and> flt (c_close (df ! i)) (Fin x)"
    if "is_inverted_hammer (map c_open df) (map c_high df) (map c_low df) (map c_close df)
          0.35 2.0 0.25 ! i"
    using that assms
    by (cases "c_open (df ! i)"; cases "c_close (df ! i)")
       (auto simp: is_inverted_hammer_nth[where n="length df"])
  show ?thesis using doji hammer inv by (simp add: is_shooting_star_def)
qed

theorem flat_candle_detectors_witness:
  "0 < length flat_frame \<and> c_high (flat_frame ! 0) = Fin 10
   \<and> c_low (flat_frame ! 0) = Fin 10
   \<and> \<not> is_doji (map c_open flat_frame) (map c_high flat_frame) (map c_low flat_frame)
          (map c_close flat_frame) 0.20 ! 0
   \<and> \<not> is_hammer (map c_open flat_frame) (map c_high flat_frame) (map c_low flat_frame)
          (map c_close flat_frame) 0.35 2.0 0.25 ! 0
   \<and> \<not> is_inverted_hammer (map c_open flat_frame) (map c_high flat_frame)
          (map c_low flat_frame) (map c_close flat_frame) 0.35 2.0 0.25 ! 0
   \<and> \<not> is_shooting_star (map c_open flat_frame) (map c_high flat_frame)
          (map c_low flat_frame) (map c_close flat_frame) 0.35 2.0 0.25 ! 0"
proof -
  have h: "0 < length flat_frame" "c_high (flat_frame ! 0) = Fin 10"
    "c_low (flat_frame ! 0) = Fin 10"
    by (simp_all add: flat_frame_def mk_row_def)
  have oc: "c_open (flat_frame ! 0) = Fin 10" "c_close (flat_frame ! 0) = Fin 10"
    by (simp_all add: flat_frame_def mk_row_def)
  show ?thesis using h flat_candle_detectors [OF h, of "0.20"] by (simp add: oc)
qed

text \<open>
  The claim as stated fails for \<open>is_hammer\<close>, which has no guard on the range: a row
  with \<open>high = low = 10\<close> and \<open>open = close = 11\<close> is reported as a hammer.
\<close>

theorem flat_candle_hammer_counterexample:
  "c_high (malformed_frame ! 0) = c_low (malformed_frame ! 0)
   \<and> is_hammer (map c_open malformed_frame) (map c_high malformed_frame)
        (map c_low malformed_frame) (map c_close malformed_frame) 0.35 2.0 0.25 ! 0"
  by (subst is_hammer_nth[where n=1]) (simp_all add: malformed_frame_def mk_row_def)


section \<open>Properties of the indicator engine\<close>

lemma rolling_mean_length [simp]: "length (rolling_mean n xs) = length xs"
  by (simp add: rolling_mean_def)

lemma rolling_mean_nth:
  "i < length xs \<Longrightarrow>
     rolling_mean n xs ! i
       = (if i + 1 < n then NaN else window_mean (take n (drop (i + 1 - n) xs)))"
  by (simp add: rolling_mean_def)

lemma s_replace_length [simp]: "length (s_replace xs a b) = length xs"
  by (simp add: s_replace_def)

lemma s_replace_nth:
  "i < length xs \<Longrightarrow> s_replace xs a b ! i = (if xs ! i = Fin a then Fin b else xs ! i)"
  by (simp add: s_replace_def)

lemma cci_lengths [simp]:
  assumes "length lo = length hi" "length cl = length hi"
  shows "length (cci_tp hi lo cl) = length hi"
    and "length (cci_ma hi lo cl n) = length hi"
    and "length (cci_dev hi lo cl n) = length hi"
    and "length (cci_md hi lo cl n) = length hi"
    and "length (cci hi lo cl n) = length hi"
  using assms by (simp_all add: cci_tp_def cci_ma_def cci_dev_def cci_md_def cci_def)

lemma cci_nth:
  assumes "i < length hi" "length lo = length hi" "length cl = length hi"
  shows "cci hi lo cl n ! i
     = fdiv (fsub (cci_tp hi lo cl ! i) (cci_ma hi lo cl n ! i))
            (fmul (Fin 0.015) (cci_md hi lo cl n ! i))"
  using assms by (simp add: cci_def series_nth)

lemma cci_first_rows:
  assumes "i < length hi" "length lo = length hi" "length cl = length hi" "i + 1 < n"
  shows "cci hi lo cl n ! i = NaN"
proof -
  have "cci_ma hi lo cl n ! i = NaN"
    using assms by (simp add: cci_ma_def rolling_mean_nth)
  then show ?thesis
    using assms(1-3) by (cases "cci_tp hi lo cl ! i") (simp_all add: cci_nth)
qed

lemma cci_divisor_nonzero:
  assumes "i < length hi" "length lo = length hi" "length cl = length hi"
  shows "s_cmul 0.015 (cci_md hi lo cl n) ! i \<noteq> Fin 0"
proof -
  have "cci_md hi lo cl n ! i \<noteq> Fin 0"
    using assms by (simp add: cci_md_def s_replace_nth)
  then show ?thesis
    using assms by (cases "cci_md hi lo cl n ! i") (simp_all add: series_nth)
qed

lemma foldr_fadd_replicate:
  "foldr fadd (replicate k (Fin c)) (Fin z) = Fin (real k * c + z)"
  by (induction k) (simp_all add: algebra_simps)

lemma window_mean_replicate:
  "0 < k \<Longrightarrow> window_mean (replicate k (Fin c)) = Fin c"
  by (simp add: window_mean_def foldr_fadd_replicate del: foldr_replicate)

lemma flat_tp: "cci_tp (replicate m (Fin c)) (replicate m (Fin c)) (replicate m (Fin c))
     = replicate m (Fin c)"
  by (simp add: cci_tp_def s_add_def s_divc_def)

lemma flat_ma_nth:
  assumes "i < m" "0 < n"
  shows "cci_ma (replicate m (Fin c)) (replicate m (Fin c)) (replicate m (Fin c)) n ! i
     = (if i + 1 < n then NaN else Fin c)"
proof -
  have "min n (m - (i + 1 - n)) = n" if "\<not> i + 1 < n" using that assms by simp
  then show ?thesis
    using assms by (simp add: cci_ma_def flat_tp rolling_mean_nth window_mean_replicate)
qed

lemma flat_abs_dev_nth:
  assumes "i < m" "0 < n"
  shows "s_abs (s_sub (cci_tp (replicate m (Fin c)) (replicate m (Fin c)) (replicate m (Fin c)))
                      (cci_ma (replicate m (Fin c)) (replicate m (Fin c)) (replicate m (Fin c)) n)) ! i
     = (if i + 1 < n then NaN else Fin 0)"
proof -
  have "i < length (cci_ma (replicate m (Fin c)) (replicate m (Fin c)) (replicate m (Fin c)) n)"
    using assms by simp
  then show ?thesis
    using assms by (simp add: series_nth flat_ma_nth flat_tp)
qed

lemma flat_dev_nth:
  assumes "i < m" "0 < n" "2 * n \<le> i + 2"
  shows "cci_dev (replicate m (Fin c)) (replicate m (Fin c)) (replicate m (Fin c)) n ! i = Fin 0"
proof -
  let ?r = "replicate m (Fin c)"
  let ?d = "s_abs (s_sub (cci_tp ?r ?r ?r) (cci_ma ?r ?r ?r n))"
  have len: "length ?d = m" by simp
  have win: "take n (drop (i + 1 - n) ?d) = replicate n (Fin 0)"
  proof (rule nth_equalityI)
    show "length (take n (drop (i + 1 - n) ?d)) = length (replicate n (Fin 0::fl))"
      using assms len by simp
  next
    fix j assume "j < length (take n (drop (i + 1 - n) ?d))"
    then have j: "j < n" by simp
    have idx: "i + 1 - n + j < m" using assms j by simp
    have "take n (drop (i + 1 - n) ?d) ! j = ?d ! (i + 1 - n + j)"
      using j idx len by simp
    also have "\<dots> = Fin 0"
    proof -
      have nn: "\<not> i + 1 - n + j + 1 < n" using assms j by simp
      show ?thesis unfolding flat_abs_dev_nth[OF idx assms(2)] using nn by simp
    qed
    finally show "take n (drop (i + 1 - n) ?d) ! j = replicate n (Fin 0) ! j"
      using j by simp
  qed
  have nn: "\<not> i + 1 < n" using assms by simp
  have r: "rolling_mean n ?d ! i = window_mean (take n (drop (i + 1 - n) ?d))"
    using rolling_mean_nth[of i ?d n] nn len assms(1) by simp
  show ?thesis
    unfolding cci_dev_def r win by (simp add: window_mean_replicate assms(2))
qed

lemma flat_cci_nth:
  assumes "i < m" "0 < n" "2 * n \<le> i + 2"
  shows "cci_md (replicate m (Fin c)) (replicate m (Fin c)) (replicate m (Fin c)) n ! i
           = Fin (1 / 10 ^ 12)"
    and "cci (replicate m (Fin c)) (replicate m (Fin c)) (replicate m (Fin c)) n ! i = Fin 0"
proof -
  let ?r = "replicate m (Fin c)"
  show md: "cci_md ?r ?r ?r n ! i = Fin (1 / 10 ^ 12)"
    using assms by (simp add: cci_md_def s_replace_nth flat_dev_nth)
  have "\<not> i + 1 < n" using assms by simp
  then show "cci ?r ?r ?r n ! i = Fin 0"
    using assms by (simp add: cci_nth md flat_tp flat_ma_nth)
qed

text \<open>
  Claim C9. For every frame and window length \<open>n\<close>, \<open>cci\<close> is \<open>NaN\<close> on the first
  \<open>n - 1\<close> bars. The divisor \<open>0.015 * md\<close> is never zero, on any frame, because a
  zero mean deviation is replaced by \<open>1e-12\<close>. On a perfectly flat frame the mean
  deviation is zero from bar \<open>2n - 2\<close> on, the replacement makes it \<open>1e-12\<close>, and
  \<open>cci\<close> is 0 there.
\<close>

theorem cci_undefined_and_safe:
  assumes "i < length hi" and "length lo = length hi" and "length cl = length hi"
  shows "(i + 1 < n \<longrightarrow> cci hi lo cl n ! i = NaN)
     \<and> s_cmul 0.015 (cci_md hi lo cl n) ! i \<noteq> Fin 0
     \<and> (0 < n \<and> 2 * n \<le> i + 2 \<and> hi = replicate (length hi) (Fin c) \<and> lo = hi \<and> cl = hi
         \<longrightarrow> cci_dev hi lo cl n ! i = Fin 0
           \<and> cci_md hi lo cl n ! i = Fin (1 / 10 ^ 12)
           \<and> cci hi lo cl n ! i = Fin 0)"
proof -
  have flat: "cci_dev hi lo cl n ! i = Fin 0 \<and> cci_md hi lo cl n ! i = Fin (1 / 10 ^ 12)
           \<and> cci hi lo cl n ! i = Fin 0"
    if h: "0 < n" "2 * n \<le> i + 2" "hi = replicate (length hi) (Fin c)" "lo = hi" "cl = hi"
  proof -
    let ?r = "replicate (length hi) (Fin c)"
    have "cci_dev ?r ?r ?r n ! i = Fin 0 \<and> cci_md ?r ?r ?r n ! i = Fin (1 / 10 ^ 12)
           \<and> cci ?r ?r ?r n ! i = Fin 0"
      using flat_dev_nth[OF assms(1) h(1,2)] flat_cci_nth[OF assms(1) h(1,2)] by blast
    then show ?thesis using h(3-5) by metis
  qed
  from cci_first_rows[OF assms] cci_divisor_nonzero[OF assms] flat show ?thesis by blast
qed

theorem cci_undefined_and_safe_witness:
  "cci (replicate 3 (Fin 5)) (replicate 3 (Fin 5)) (replicate 3 (Fin 5)) 2 ! 0 = NaN
   \<and> cci_dev (replicate 3 (Fin 5)) (replicate 3 (Fin 5)) (replicate 3 (Fin 5)) 2 ! 2 = Fin 0
   \<and> cci (replicate 3 (Fin 5)) (replicate 3 (Fin 5)) (replicate 3 (Fin 5)) 2 ! 2 = Fin 0"
proof -
  have l: "length (replicate 3 (Fin 5)) = length (replicate 3 (Fin 5))" by simp
  have i0: "0 < length (replicate 3 (Fin 5))" and i2: "2 < length (replicate 3 (Fin 5))"
    by simp_all
  have a: "(0::nat) + 1 < 2" by simp
  have b: "(0::nat) < 2 \<and> 2 * 2 \<le> (2::nat) + 2
      \<and> replicate 3 (Fin 5) = replicate (length (replicate 3 (Fin 5))) (Fin 5)
      \<and> replicate 3 (Fin 5) = replicate 3 (Fin 5) \<and> replicate 3 (Fin 5) = replicate 3 (Fin 5)"
    by simp
  show ?thesis
    using a b cci_undefined_and_safe[OF i0 l l, of 2 5] cci_undefined_and_safe[OF i2 l l, of 2 5]
    by blast
qed

section \<open>Properties of the trade state machine\<close>

lemma py_max_Fin: "py_max (Fin x) (Fin y) = Fin (max x y)"
  by (simp add: py_max_def max_def)

lemma compute_indicators_length [simp]:
  "length (compute_indicators df a b c n) = length df"
  by (simp add: compute_indicators_def Let_def)

lemma compute_indicators_prices:
  assumes "i < length df"
  shows "c_open (compute_indicators df a b c n ! i) = Fin (b_open (df ! i))"
    and "c_high (compute_indicators df a b c n ! i) = Fin (b_high (df ! i))"
    and "c_low (compute_indicators df a b c n ! i) = Fin (b_low (df ! i))"
    and "c_close (compute_indicators df a b c n ! i) = Fin (b_close (df ! i))"
  using assms by (simp_all add: compute_indicators_def Let_def)

lemma compute_indicators_ema20:
  assumes "i < length df"
  shows "c_ema20 (compute_indicators df a b c n ! i) = Fin (ema (map b_close df) 20 ! i)"
  using assms by (simp add: compute_indicators_def Let_def)

lemma compute_indicators_Nil [simp]:
  "compute_indicators df a b c n = [] \<longleftrightarrow> df = []"
  using compute_indicators_length [of df a b c n] by (metis length_0_conv)

lemma last_compute_indicators:
  assumes "df \<noteq> []"
  shows "last (compute_indicators df a b c n) = compute_indicators df a b c n ! (length df - 1)"
  using assms by (simp add: last_conv_nth)

lemma last_prices:
  assumes "df \<noteq> []"
  shows "c_close (last (compute_indicators df a b c n)) = Fin (b_close (last df))"
    and "c_low (last (compute_indicators df a b c n)) = Fin (b_low (last df))"
  using assms
  by (simp_all add: last_compute_indicators compute_indicators_prices last_conv_nth)

lemma prev_low:
  assumes "2 \<le> length df"
  shows "last (shift1 (map c_low (compute_indicators df a b c n)))
           = Fin (b_low (df ! (length df - 2)))"
proof -
  have ne: "shift1 (map c_low (compute_indicators df a b c n)) \<noteq> []"
    using assms by (auto simp: shift1_def)
  have "last (shift1 (map c_low (compute_indicators df a b c n)))
          = shift1 (map c_low (compute_indicators df a b c n)) ! (length df - 1)"
    using ne by (simp add: last_conv_nth)
  also have "\<dots> = map c_low (compute_indicators df a b c n) ! (length df - 1 - 1)"
    using assms by (simp add: shift1_nth)
  also have "\<dots> = Fin (b_low (df ! (length df - 2)))"
  proof -
    have e: "length df - 1 - 1 = length df - 2" by simp
    show ?thesis using assms unfolding e by (simp add: compute_indicators_prices)
  qed
  finally show ?thesis .
qed

text \<open>The branch of \<open>analyze_bar\<close> taken on a frame.\<close>

lemma analyze_bar_short:
  "length df < 30 \<Longrightarrow> analyze_bar MOMO sp df = (sp, [])"
  by (simp add: analyze_bar_def Let_def)

lemma analyze_bar_flat:
  assumes "30 \<le> length df" "\<not> in_pos P"
  shows "analyze_bar MOMO (STATE, P) df =
     (if last (momentum_entries
                (compute_indicators df (m_macd_fast MOMO) (m_macd_slow MOMO)
                   (m_macd_signal MOMO) (m_cci_len MOMO))
                (m_doji_body_pct MOMO) (m_cci_entry MOMO) (m_confirm_break_high MOMO)
                default_use_patterns)
      then entry_branch STATE P
             (compute_indicators df (m_macd_fast MOMO) (m_macd_slow MOMO)
                (m_macd_signal MOMO) (m_cci_len MOMO))
             (Fin (b_close (last df)))
      else ((STATE, P), []))"
proof -
  have ne: "df \<noteq> []" using assms(1) by auto
  show ?thesis
    using assms ne by (auto simp: analyze_bar_def Let_def last_prices)
qed

lemma analyze_bar_long:
  assumes "30 \<le> length df" "in_pos P"
  shows "analyze_bar MOMO (STATE, P) df =
     long_branch STATE P
       (last (compute_indicators df (m_macd_fast MOMO) (m_macd_slow MOMO)
                (m_macd_signal MOMO) (m_cci_len MOMO)))
       (Fin (b_close (last df)))
       (last (momentum_exit_flip
                (compute_indicators df (m_macd_fast MOMO) (m_macd_slow MOMO)
                   (m_macd_signal MOMO) (m_cci_len MOMO))
                (m_cci_exit MOMO) default_include_patterns))"
proof -
  have ne: "df \<noteq> []" using assms(1) by auto
  show ?thesis
    using assms ne by (auto simp: analyze_bar_def Let_def last_prices)
qed

text \<open>The entry branch.\<close>

lemma entry_branch_cases:
  assumes "2 \<le> length df"
  obtains (error) err where
      "position_size_float (to_float (b_close (last df)))
         (to_float (max (b_low (df ! (length df - 2)))
                   (b_close (last df) * (1 - used_risk_pct STATE))))
         (to_float (st_equity STATE)) (to_float (used_risk_pct STATE)) = Inl err"
      "entry_branch STATE P (compute_indicators df a b c n) (Fin (b_close (last df)))
        = ((STATE,
            P\<lparr>p_entry := Fin (b_close (last df)),
              p_stop := Fin (max (b_low (df ! (length df - 2)))
                                (b_close (last df) * (1 - used_risk_pct STATE)))\<rparr>),
           [ErrorMsg err])"
  | (reject) qty where
      "position_size_float (to_float (b_close (last df)))
         (to_float (max (b_low (df ! (length df - 2)))
                   (b_close (last df) * (1 - used_risk_pct STATE))))
         (to_float (st_equity STATE)) (to_float (used_risk_pct STATE)) = Inr qty"
      "qty \<le> 0 \<or> b_close (last df)
          \<le> max (b_low (df ! (length df - 2))) (b_close (last df) * (1 - used_risk_pct STATE))"
      "entry_branch STATE P (compute_indicators df a b c n) (Fin (b_close (last df)))
        = ((STATE\<lparr>st_max_loss_pct := used_risk_pct STATE\<rparr>,
            P\<lparr>p_entry := Fin (b_close (last df)),
              p_stop := Fin (max (b_low (df ! (length df - 2)))
                                (b_close (last df) * (1 - used_risk_pct STATE))),
              p_qty := qty\<rparr>), [])"
  | (accept) qty where
      "position_size_float (to_float (b_close (last df)))
         (to_float (max (b_low (df ! (length df - 2)))
                   (b_close (last df) * (1 - used_risk_pct STATE))))
         (to_float (st_equity STATE)) (to_float (used_risk_pct STATE)) = Inr qty"
      "0 < qty"
      "max (b_low (df ! (length df - 2))) (b_close (last df) * (1 - used_risk_pct STATE))
         < b_close (last df)"
      "entry_branch STATE P (compute_indicators df a b c n) (Fin (b_close (last df)))
        = ((STATE\<lparr>st_max_loss_pct := used_risk_pct STATE\<rparr>,
            P\<lparr>p_entry := Fin (b_close (last df)),
              p_stop := Fin (max (b_low (df ! (length df - 2)))
                                (b_close (last df) * (1 - used_risk_pct STATE))),
              p_qty := qty, in_pos := True,
              last_trailing := Some (Fin (max (b_low (df ! (length df - 2)))
                                (b_close (last df) * (1 - used_risk_pct STATE))))\<rparr>),
           [Enter (Fin (b_close (last df)))
              (Fin (max (b_low (df ! (length df - 2)))
                        (b_close (last df) * (1 - used_risk_pct STATE))))
              (Fin (b_low (df ! (length df - 2))))
              (Fin (b_close (last df) * (1 - used_risk_pct STATE)))
              qty (used_risk_pct STATE)])"
proof -
  let ?stop = "max (b_low (df ! (length df - 2))) (b_close (last df) * (1 - used_risk_pct STATE))"
  let ?ps = "position_size_float (to_float (b_close (last df))) (to_float ?stop)
       (to_float (st_equity STATE)) (to_float (used_risk_pct STATE))"
  note pm = py_max_Fin
  show ?thesis
  proof (cases ?ps)
    case (Inl err)
    show ?thesis
      by (rule error[OF Inl])
         (use Inl in \<open>simp add: entry_branch_def Let_def prev_low[OF assms] pm\<close>)
  next
    case (Inr qty)
    show ?thesis
    proof (cases "qty \<le> 0 \<or> b_close (last df) \<le> ?stop")
      case True
      show ?thesis
        by (rule reject[OF Inr True])
           (use True Inr in \<open>auto simp: entry_branch_def Let_def prev_low[OF assms] pm\<close>)
    next
      case False
      then have a: "0 < qty" "?stop < b_close (last df)" by auto
      show ?thesis
        by (rule accept[OF Inr a])
           (use a Inr in \<open>auto simp: entry_branch_def Let_def prev_low[OF assms] pm\<close>)
    qed
  qed
qed

lemma analyze_bar_accept:
  assumes "\<not> in_pos P"
      and "analyze_bar MOMO (STATE, P) df = ((STATE', P'), evs)"
      and "in_pos P'"
  shows "30 \<le> length df
     \<and> p_entry P' = Fin (b_close (last df))
     \<and> p_stop P' = Fin (max (b_low (df ! (length df - 2)))
                           (b_close (last df) * (1 - used_risk_pct STATE)))
     \<and> last_trailing P' = Some (p_stop P')"
proof -
  have len: "30 \<le> length df"
  proof (rule ccontr)
    assume "\<not> 30 \<le> length df"
    then have "analyze_bar MOMO (STATE, P) df = ((STATE, P), [])"
      by (simp add: analyze_bar_short)
    with assms show False by simp
  qed
  let ?df = "compute_indicators df (m_macd_fast MOMO) (m_macd_slow MOMO)
               (m_macd_signal MOMO) (m_cci_len MOMO)"
  have eb: "entry_branch STATE P ?df (Fin (b_close (last df))) = ((STATE', P'), evs)"
    using assms analyze_bar_flat[OF len assms(1), of MOMO STATE]
    by (auto split: if_splits)
  have two: "2 \<le> length df" using len by simp
  have main: "p_entry P' = Fin (b_close (last df))
     \<and> p_stop P' = Fin (max (b_low (df ! (length df - 2)))
                           (b_close (last df) * (1 - used_risk_pct STATE)))
     \<and> last_trailing P' = Some (p_stop P')"
  proof (cases rule: entry_branch_cases[OF two, of STATE P "m_macd_fast MOMO" "m_macd_slow MOMO"
          "m_macd_signal MOMO" "m_cci_len MOMO", case_names error reject accept])
    case (error err)
    with eb assms show ?thesis by auto
  next
    case (reject qty)
    with eb assms show ?thesis by auto
  next
    case (accept qty)
    with eb show ?thesis by auto
  qed
  with len show ?thesis by blast
qed


text \<open>
  Claim C5, as amended. When an entry candidate is rejected (the entry signal holds on
  a bar while flat, \<open>position_size\<close> returns a quantity, and the quantity is not
  positive, or the entry is not above the stop, or the stop is not finite), the
  machine stays flat, sends no message, so there is neither an enter event nor an
  error report, and leaves its trailing mark untouched; equity, default risk
  fraction, take-profit multiple and risk override are unchanged. The immediate-loss
  cutoff is not preserved: it holds the candidate's risk fraction afterwards.
\<close>

theorem rejected_entry_frame:
  assumes "\<not> in_pos P" and "30 \<le> length df"
      and "last (momentum_entries
                  (compute_indicators df (m_macd_fast MOMO) (m_macd_slow MOMO)
                     (m_macd_signal MOMO) (m_cci_len MOMO))
                  (m_doji_body_pct MOMO) (m_cci_entry MOMO) (m_confirm_break_high MOMO)
                  default_use_patterns)"
      and "entry = b_close (last df)" and "used = used_risk_pct STATE"
      and "stop = max (b_low (df ! (length df - 2))) (entry * (1 - used))"
      and "position_size_float (to_float entry) (to_float stop) (to_float (st_equity STATE))
             (to_float used) = Inr qty"
      and "qty \<le> 0 \<or> fle (Fin entry) (Fin stop) \<or> \<not> isfinite (Fin stop)"
      and "analyze_bar MOMO (STATE, P) df = ((STATE', P'), evs)"
  shows "\<not> in_pos P' \<and> evs = []
     \<and> last_trailing P' = last_trailing P
     \<and> st_equity STATE' = st_equity STATE
     \<and> st_r_pct STATE' = st_r_pct STATE
     \<and> st_tp_R STATE' = st_tp_R STATE
     \<and> st_cmd_risk_pct STATE' = st_cmd_risk_pct STATE
     \<and> st_max_loss_pct STATE' = used"
proof -
  let ?df = "compute_indicators df (m_macd_fast MOMO) (m_macd_slow MOMO)
               (m_macd_signal MOMO) (m_cci_len MOMO)"
  have eb: "entry_branch STATE P ?df (Fin (b_close (last df))) = ((STATE', P'), evs)"
    using assms(3,9) analyze_bar_flat[OF assms(2,1), of MOMO STATE] by simp
  have two: "2 \<le> length df" using assms(2) by simp
  note ps = assms(7)[unfolded assms(6) assms(4) assms(5)]
  have rj: "qty \<le> 0 \<or> b_close (last df)
      \<le> max (b_low (df ! (length df - 2))) (b_close (last df) * (1 - used_risk_pct STATE))"
    using assms(8) unfolding assms(6) assms(4) assms(5) by simp
  show ?thesis
  proof (cases rule: entry_branch_cases[OF two, of STATE P "m_macd_fast MOMO" "m_macd_slow MOMO"
          "m_macd_signal MOMO" "m_cci_len MOMO", case_names error reject accept])
    case (error err)
    with ps show ?thesis by simp
  next
    case (reject q)
    with ps have "q = qty" by simp
    with reject eb assms(1) show ?thesis
      unfolding assms(6) assms(4) assms(5) by auto
  next
    case (accept q)
    with ps have "q = qty" by simp
    with accept rj show ?thesis by auto
  qed
qed

text \<open>
  When \<open>position_size\<close> raises instead, the handler of the loop reports the error:
  the machine stays flat and the shared state, the cutoff included, is untouched.
\<close>

lemma entry_error_frame:
  assumes "\<not> in_pos P" and "30 \<le> length df"
      and "last (momentum_entries
                  (compute_indicators df (m_macd_fast MOMO) (m_macd_slow MOMO)
                     (m_macd_signal MOMO) (m_cci_len MOMO))
                  (m_doji_body_pct MOMO) (m_cci_entry MOMO) (m_confirm_break_high MOMO)
                  default_use_patterns)"
      and "position_size_float (to_float (b_close (last df)))
             (to_float (max (b_low (df ! (length df - 2)))
                            (b_close (last df) * (1 - used_risk_pct STATE))))
             (to_float (st_equity STATE)) (to_float (used_risk_pct STATE)) = Inl err"
  shows "analyze_bar MOMO (STATE, P) df
     = ((STATE,
         P\<lparr>p_entry := Fin (b_close (last df)),
           p_stop := Fin (max (b_low (df ! (length df - 2)))
                             (b_close (last df) * (1 - used_risk_pct STATE)))\<rparr>),
        [ErrorMsg err])"
proof -
  have two: "2 \<le> length df" using assms(2) by simp
  have ab: "analyze_bar MOMO (STATE, P) df
      = entry_branch STATE P
          (compute_indicators df (m_macd_fast MOMO) (m_macd_slow MOMO)
             (m_macd_signal MOMO) (m_cci_len MOMO))
          (Fin (b_close (last df)))"
    using assms(3) analyze_bar_flat[OF assms(2,1), of MOMO STATE] by simp
  show ?thesis
  proof (cases rule: entry_branch_cases[OF two, of STATE P "m_macd_fast MOMO" "m_macd_slow MOMO"
          "m_macd_signal MOMO" "m_cci_len MOMO", case_names error reject accept])
    case (error e)
    with assms(4) ab show ?thesis by simp
  next
    case (reject q)
    with assms(4) show ?thesis by simp
  next
    case (accept q)
    with assms(4) show ?thesis by simp
  qed
qed

lemma trailing_branch_events:
  "filter is_exit (snd (trailing_branch STATE P lastr evs)) = filter is_exit evs"
  by (simp add: trailing_branch_def Let_def)

lemma trailing_branch_in_pos:
  "in_pos (snd (fst (trailing_branch STATE P lastr evs))) = in_pos P"
  by (simp add: trailing_branch_def Let_def)

lemma long_branch_exits:
  assumes "in_pos P"
  shows "length (filter is_exit (snd (long_branch STATE P lastr price flip))) \<le> 1
     \<and> (in_pos (snd (fst (long_branch STATE P lastr price flip)))
          \<longleftrightarrow> filter is_exit (snd (long_branch STATE P lastr price flip)) = [])"
  using assms
  by (simp add: long_branch_def Let_def trailing_branch_events trailing_branch_in_pos)

text \<open>
  Claim C3. On every bar processed while long (a frame of at least 30 bars): if the
  fail-safe condition holds, the machine exits with the fail-safe message alone,
  whether or not the low has reached the stop; if only the structural-stop condition
  holds, it exits with the stop message alone; in both cases stop and trailing mark
  are left as they were, so the weakening, take-profit and trailing checks have not
  run. On every such bar at most one exit message is sent, and the machine is flat
  afterwards exactly when one was sent.
\<close>

theorem long_exit_priority:
  assumes "in_pos P" and "30 \<le> length df"
  shows "(immediate_stop_hit (Fin (b_close (last df))) (p_entry P) (Fin (st_max_loss_pct STATE))
          \<longrightarrow> analyze_bar MOMO (STATE, P) df
               = ((STATE, P\<lparr>in_pos := False\<rparr>), [ExitFailSafe (st_max_loss_pct STATE)]))
     \<and> (\<not> immediate_stop_hit (Fin (b_close (last df))) (p_entry P)
              (Fin (st_max_loss_pct STATE))
          \<and> fle (Fin (b_low (last df))) (p_stop P)
          \<longrightarrow> analyze_bar MOMO (STATE, P) df
               = ((STATE, P\<lparr>in_pos := False\<rparr>), [ExitStop (p_stop P)]))
     \<and> length (filter is_exit (snd (analyze_bar MOMO (STATE, P) df))) \<le> 1
     \<and> (in_pos (snd (fst (analyze_bar MOMO (STATE, P) df)))
          \<longleftrightarrow> filter is_exit (snd (analyze_bar MOMO (STATE, P) df)) = [])"
proof -
  have ne: "df \<noteq> []" using assms(2) by auto
  note lb = analyze_bar_long[OF assms(2,1), of MOMO STATE]
  have a: "analyze_bar MOMO (STATE, P) df
             = ((STATE, P\<lparr>in_pos := False\<rparr>), [ExitFailSafe (st_max_loss_pct STATE)])"
    if "immediate_stop_hit (Fin (b_close (last df))) (p_entry P) (Fin (st_max_loss_pct STATE))"
    using that by (simp add: lb long_branch_def)
  have b: "analyze_bar MOMO (STATE, P) df
             = ((STATE, P\<lparr>in_pos := False\<rparr>), [ExitStop (p_stop P)])"
    if "\<not> immediate_stop_hit (Fin (b_close (last df))) (p_entry P)
            (Fin (st_max_loss_pct STATE))"
       "fle (Fin (b_low (last df))) (p_stop P)"
    using that ne by (simp add: lb long_branch_def last_prices)
  from a b long_branch_exits[OF assms(1)] show ?thesis
    unfolding lb by blast
qed

lemma trailing_branch_stop:
  assumes "p_stop P = Fin x"
  shows "\<exists>y. p_stop (snd (fst (trailing_branch STATE P lastr evs))) = Fin y \<and> x \<le> y"
proof (cases "c_ema20 lastr")
  case NaN
  then show ?thesis using assms
    by (auto simp: trailing_branch_def Let_def py_max_def split: option.splits)
next
  case (Fin e)
  then show ?thesis using assms
    by (auto simp: trailing_branch_def Let_def py_max_Fin split: option.splits)
qed

lemma trailing_branch_ratchet:
  "kept_or_ratcheted P (c_ema20 lastr) (snd (fst (trailing_branch STATE P lastr evs)))"
  by (simp add: trailing_branch_def kept_or_ratcheted_def Let_def split: option.splits)

lemma long_branch_stop:
  assumes "p_stop P = Fin x"
  shows "\<exists>y. p_stop (snd (fst (long_branch STATE P lastr price flip))) = Fin y \<and> x \<le> y"
  using assms trailing_branch_stop[OF assms]
  by (auto simp: long_branch_def Let_def)

lemma long_branch_ratchet:
  "kept_or_ratcheted P (c_ema20 lastr) (snd (fst (long_branch STATE P lastr price flip)))"
proof -
  have "kept_or_ratcheted P (c_ema20 lastr) (P\<lparr>in_pos := False\<rparr>)"
    by (simp add: kept_or_ratcheted_def)
  then show ?thesis
    using trailing_branch_ratchet by (simp add: long_branch_def Let_def)
qed

lemma analyze_bar_stop_mono:
  assumes "in_pos P" and "p_stop P = Fin x"
  shows "\<exists>y. p_stop (snd (fst (analyze_bar MOMO (STATE, P) df))) = Fin y \<and> x \<le> y"
proof (cases "30 \<le> length df")
  case True
  show ?thesis
    unfolding analyze_bar_long[OF True assms(1)] by (rule long_branch_stop[OF assms(2)])
next
  case False
  then show ?thesis using assms by (simp add: analyze_bar_short)
qed

lemma analyze_bar_ratchet:
  assumes "in_pos P"
  shows "kept_or_ratcheted P
           (c_ema20 (last (compute_indicators df (m_macd_fast MOMO) (m_macd_slow MOMO)
                             (m_macd_signal MOMO) (m_cci_len MOMO))))
           (snd (fst (analyze_bar MOMO (STATE, P) df)))"
proof (cases "30 \<le> length df")
  case True
  show ?thesis
    unfolding analyze_bar_long[OF True assms(1)] by (rule long_branch_ratchet)
next
  case False
  then show ?thesis by (simp add: analyze_bar_short kept_or_ratcheted_def)
qed

lemma analyze_bar_stop_finite:
  assumes "in_pos P \<Longrightarrow> isfinite (p_stop P)"
      and "in_pos (snd (fst (analyze_bar MOMO (STATE, P) df)))"
  shows "isfinite (p_stop (snd (fst (analyze_bar MOMO (STATE, P) df))))"
proof (cases "in_pos P")
  case True
  then obtain x where "p_stop P = Fin x" using assms(1) by (cases "p_stop P") auto
  from analyze_bar_stop_mono[OF True this, of MOMO STATE df] show ?thesis by auto
next
  case False
  obtain S' P' evs where r: "analyze_bar MOMO (STATE, P) df = ((S', P'), evs)"
    by (metis surj_pair)
  with assms(2) have "in_pos P'" by simp
  from analyze_bar_accept[OF False r this] r show ?thesis by simp
qed

lemma next_state_pos:
  "snd (next_state MOMO (STATE, P) inp)
     = snd (fst (analyze_bar MOMO (foldl apply_command STATE (fst inp), P) (snd inp)))"
  by (simp add: next_state_def)

lemma trace_length [simp]: "length (trace MOMO sp inputs) = Suc (length inputs)"
  by (induction inputs arbitrary: sp) simp_all

lemma trace_Suc:
  "k < length inputs \<Longrightarrow>
     trace MOMO sp inputs ! Suc k = next_state MOMO (trace MOMO sp inputs ! k) (inputs ! k)"
proof (induction inputs arbitrary: sp k)
  case Nil
  then show ?case by simp
next
  case (Cons inp rest)
  show ?case
  proof (cases k)
    case 0
    then show ?thesis by (cases rest) simp_all
  next
    case (Suc m)
    with Cons show ?thesis by simp
  qed
qed

lemma trace_0 [simp]: "trace MOMO sp inputs ! 0 = sp"
  by (cases inputs) simp_all

lemma trace_stop_finite:
  assumes "k \<le> length inputs"
      and "in_pos (snd (trace MOMO (STATE, initial_pos) inputs ! k))"
  shows "isfinite (p_stop (snd (trace MOMO (STATE, initial_pos) inputs ! k)))"
  using assms
proof (induction k)
  case 0
  then show ?case by (simp add: initial_pos_def)
next
  case (Suc k)
  obtain S P where sp: "trace MOMO (STATE, initial_pos) inputs ! k = (S, P)"
    by (metis surj_pair)
  have k: "k < length inputs" using Suc.prems(1) by simp
  have ih: "in_pos P \<Longrightarrow> isfinite (p_stop P)"
    using Suc.IH k sp by simp
  have step: "snd (trace MOMO (STATE, initial_pos) inputs ! Suc k)
      = snd (fst (analyze_bar MOMO (foldl apply_command S (fst (inputs ! k)), P)
                    (snd (inputs ! k))))"
    by (simp add: trace_Suc[OF k] sp next_state_pos)
  show ?case
    unfolding step
    by (rule analyze_bar_stop_finite[OF ih]) (use Suc.prems(2) step in simp_all)
qed

text \<open>
  Claim C4. Along a run of the machine from its initial state, with commands arriving
  between bars: if the position is long in every state from \<open>i\<close> to \<open>j\<close>, the stop
  in state \<open>i\<close> and the stop in state \<open>j\<close> are finite and the second is not below the
  first. Between two such states the stop is either unchanged or replaced by
  \<open>max(stop, EMA20)\<close> of the frame just processed.
\<close>

theorem stop_monotone:
  assumes "i \<le> j" and "j \<le> length inputs"
      and "\<forall>k. i \<le> k \<and> k \<le> j \<longrightarrow> in_pos (snd (analyze_and_trade MOMO STATE inputs ! k))"
  shows "(\<exists>x y. p_stop (snd (analyze_and_trade MOMO STATE inputs ! i)) = Fin x
             \<and> p_stop (snd (analyze_and_trade MOMO STATE inputs ! j)) = Fin y
             \<and> x \<le> y)
     \<and> (\<forall>k. i \<le> k \<and> k < j \<longrightarrow>
           kept_or_ratcheted (snd (analyze_and_trade MOMO STATE inputs ! k))
             (c_ema20 (last (compute_indicators (snd (inputs ! k)) (m_macd_fast MOMO)
                (m_macd_slow MOMO) (m_macd_signal MOMO) (m_cci_len MOMO))))
             (snd (analyze_and_trade MOMO STATE inputs ! Suc k)))"
proof -
  have a3: "\<forall>k. i \<le> k \<and> k \<le> j \<longrightarrow> in_pos (snd (trace MOMO (STATE, initial_pos) inputs ! k))"
    using assms(3) by (simp add: analyze_and_trade_def)
  let ?tr = "trace MOMO (STATE, initial_pos) inputs"
  have step: "snd (?tr ! Suc k)
      = snd (fst (analyze_bar MOMO (foldl apply_command (fst (?tr ! k)) (fst (inputs ! k)),
                    snd (?tr ! k)) (snd (inputs ! k))))"
    if "k < length inputs" for k
    using trace_Suc[OF that, of MOMO "(STATE, initial_pos)"]
    by (simp add: next_state_def)
  have mono: "\<exists>x y. p_stop (snd (?tr ! i)) = Fin x \<and> p_stop (snd (?tr ! (i + d))) = Fin y
                 \<and> x \<le> y"
    if "i + d \<le> j" for d
    using that
  proof (induction d)
    case 0
    have "in_pos (snd (?tr ! i))" using assms(1) a3 by simp
    then have "isfinite (p_stop (snd (?tr ! i)))"
      using trace_stop_finite[of i inputs MOMO STATE] assms(1,2) by simp
    then show ?case by (cases "p_stop (snd (?tr ! i))") auto
  next
    case (Suc d)
    then obtain x y where xy: "p_stop (snd (?tr ! i)) = Fin x"
        "p_stop (snd (?tr ! (i + d))) = Fin y" "x \<le> y"
      by auto
    have k: "i + d < length inputs" using Suc.prems assms(2) by simp
    have inp: "in_pos (snd (?tr ! (i + d)))" using a3 Suc.prems by simp
    obtain z where "p_stop (snd (?tr ! Suc (i + d))) = Fin z" "y \<le> z"
      unfolding step[OF k] using analyze_bar_stop_mono[OF inp xy(2)] by blast
    with xy show ?case by auto
  qed
  have ratchet: "kept_or_ratcheted (snd (?tr ! k))
             (c_ema20 (last (compute_indicators (snd (inputs ! k)) (m_macd_fast MOMO)
                (m_macd_slow MOMO) (m_macd_signal MOMO) (m_cci_len MOMO))))
             (snd (?tr ! Suc k))"
    if "i \<le> k" "k < j" for k
  proof -
    have k: "k < length inputs" using that assms(2) by simp
    have inp: "in_pos (snd (?tr ! k))" using a3 that by simp
    show ?thesis unfolding step[OF k] by (rule analyze_bar_ratchet[OF inp])
  qed
  have "i + (j - i) \<le> j" using assms(1) by simp
  from mono[OF this] assms(1) ratchet show ?thesis
    unfolding analyze_and_trade_def by auto
qed

section \<open>The example frames, evaluated\<close>

lemma momentum_entries_nth:
  assumes "i < length df"
  shows "momentum_entries df p ce True default_use_patterns ! i =
     (0 < i
      \<and> (is_doji (map c_open df) (map c_high df) (map c_low df) (map c_close df) p ! (i - 1)
         \<or> is_hammer (map c_open df) (map c_high df) (map c_low df) (map c_close df)
              0.35 2.0 0.25 ! (i - 1)
         \<or> is_inverted_hammer (map c_open df) (map c_high df) (map c_low df) (map c_close df)
              0.35 2.0 0.25 ! (i - 1)
         \<or> bullish_engulfing (shift1 (map c_open df)) (shift1 (map c_close df))
              (map c_open df) (map c_close df) ! (i - 1))
      \<and> fgt (c_macd_line (df ! i)) (c_macd_signal (df ! i))
      \<and> fgt (c_cci (df ! i)) (Fin ce)
      \<and> fgt (c_close (df ! i)) (c_high (df ! (i - 1))))"
proof (cases i)
  case 0
  then show ?thesis using assms
    by (simp add: momentum_entries_def default_use_patterns_def Let_def
       series_nth shift1_nth  is_doji_nth[where n="length df"] is_hammer_nth[where n="length df"]
       is_inverted_hammer_nth[where n="length df"] bullish_engulfing_nth[where n="length df"])
next
  case (Suc j)
  then show ?thesis using assms
    by (simp add: momentum_entries_def default_use_patterns_def Let_def
       series_nth shift1_nth  is_doji_nth[where n="length df"] is_hammer_nth[where n="length df"]
       is_inverted_hammer_nth[where n="length df"] bullish_engulfing_nth[where n="length df"])
qed

lemma compute_indicators_macd:
  assumes "i < length df"
  shows "c_macd_line (compute_indicators df a b c n ! i) = Fin (fst (macd (map b_close df) a b c) ! i)"
    and "c_macd_signal (compute_indicators df a b c n ! i)
           = Fin (fst (snd (macd (map b_close df) a b c)) ! i)"
  using assms by (simp_all add: compute_indicators_def Let_def)

lemma compute_indicators_cci:
  assumes "i < length df"
  shows "c_cci (compute_indicators df a b c n ! i)
     = cci (map (\<lambda>b. Fin (b_high b)) df) (map (\<lambda>b. Fin (b_low b)) df)
           (map (\<lambda>b. Fin (b_close b)) df) n ! i"
  using assms by (simp add: compute_indicators_def Let_def)

lemma ema_from_replicate:
  "ema_from a c (replicate k c @ ys) = replicate k c @ ema_from a c ys"
  by (induction k) (simp_all add: algebra_simps)

lemma ema_replicate_append:
  "0 < k \<Longrightarrow> ema (replicate k c @ ys) n = replicate k c @ ema_from (2 / (real n + 1)) c ys"
  by (cases k) (simp_all add: ema_def ema_from_replicate)

lemma entry_bars_length: "length entry_bars = 30"
  by (simp add: entry_bars_def)

lemma entry_bars_close:
  "map b_close entry_bars = replicate 28 100 @ [100, 102]"
  by (simp add: entry_bars_def mk_bar_def)

lemma entry_bars_macd:
  "fst (macd (map b_close entry_bars) 12 26 9) ! 29 = 56 / 351"
  "fst (snd (macd (map b_close entry_bars) 12 26 9)) ! 29 = 56 / 1755"
  by (simp_all add: macd_def Let_def entry_bars_close ema_replicate_append nth_append)


lemma take_drop_nths:
  "k + n \<le> length xs \<Longrightarrow> take n (drop k xs) = map ((!) xs) [k..<k + n]"
  by (rule nth_equalityI) simp_all

lemma window_mean_const_snoc:
  "window_mean (replicate k (Fin c) @ [Fin x]) = Fin ((real k * c + x) / (real k + 1))"
  by (simp add: window_mean_def foldr_fadd_replicate del: foldr_replicate)

lemma entry_bars_tp:
  "cci_tp (map (\<lambda>b. Fin (b_high b)) entry_bars) (map (\<lambda>b. Fin (b_low b)) entry_bars)
          (map (\<lambda>b. Fin (b_close b)) entry_bars)
     = replicate 29 (Fin 100) @ [Fin (305 / 3)]"
proof -
  have "replicate 28 (Fin 100) @ [Fin 100, Fin (305 / 3)] = replicate 29 (Fin 100) @ [Fin (305 / 3)]"
    (is "?l = ?r")
  proof -
    have "?r = replicate (28 + 1) (Fin 100) @ [Fin (305 / 3)]" by simp
    also have "\<dots> = ?l" unfolding replicate_add by simp
    finally show ?thesis by simp
  qed
  then show ?thesis
    by (simp add: cci_tp_def s_add_def s_divc_def entry_bars_def mk_bar_def)
qed


lemma spike_ma_nth:
  assumes "13 \<le> j" "j < 30"
  shows "rolling_mean 14 (replicate 29 (Fin 100) @ [Fin x]) ! j
     = (if j = 29 then Fin ((1300 + x) / 14) else Fin 100)"
proof (cases "j = 29")
  case True
  have "take 14 (drop 16 (replicate 29 (Fin 100) @ [Fin x])) = replicate 13 (Fin 100) @ [Fin x]"
    by simp
  then show ?thesis
    using True by (simp add: rolling_mean_nth window_mean_const_snoc)
next
  case False
  then have j: "j < 29" using assms by simp
  have "min 14 (29 - (j - 13)) = 14" using assms j by simp
  then have "take 14 (drop (j + 1 - 14) (replicate 29 (Fin 100) @ [Fin x]))
               = replicate 14 (Fin 100)"
    using assms j by simp
  then show ?thesis
    using False assms by (simp add: rolling_mean_nth window_mean_replicate)
qed

lemma spike_dev_nth:
  assumes "13 \<le> j" "j < 30"
  shows "s_abs (s_sub (replicate 29 (Fin 100) @ [Fin x])
                      (rolling_mean 14 (replicate 29 (Fin 100) @ [Fin x]))) ! j
     = (if j = 29 then Fin \<bar>x - (1300 + x) / 14\<bar> else Fin 0)"
  using assms by (simp add: series_nth spike_ma_nth nth_append)

lemma spike_dev_window:
  "take 14 (drop 16 (s_abs (s_sub (replicate 29 (Fin 100) @ [Fin x])
                      (rolling_mean 14 (replicate 29 (Fin 100) @ [Fin x])))))
     = replicate 13 (Fin 0) @ [Fin \<bar>x - (1300 + x) / 14\<bar>]"
proof (rule nth_equalityI)
  show "length (take 14 (drop 16 (s_abs (s_sub (replicate 29 (Fin 100) @ [Fin x])
                      (rolling_mean 14 (replicate 29 (Fin 100) @ [Fin x]))))))
        = length (replicate 13 (Fin 0) @ [Fin \<bar>x - (1300 + x) / 14\<bar>])"
    by simp
next
  fix j
  assume "j < length (take 14 (drop 16 (s_abs (s_sub (replicate 29 (Fin 100) @ [Fin x])
                      (rolling_mean 14 (replicate 29 (Fin 100) @ [Fin x]))))))"
  then have j: "j < 14" by simp
  have b: "13 \<le> 16 + j" "16 + j < 30" using j by simp_all
  have "take 14 (drop 16 (s_abs (s_sub (replicate 29 (Fin 100) @ [Fin x])
                      (rolling_mean 14 (replicate 29 (Fin 100) @ [Fin x]))))) ! j
        = s_abs (s_sub (replicate 29 (Fin 100) @ [Fin x])
                      (rolling_mean 14 (replicate 29 (Fin 100) @ [Fin x]))) ! (16 + j)"
    using j by simp
  also have "\<dots> = (if 16 + j = 29 then Fin \<bar>x - (1300 + x) / 14\<bar> else Fin 0)"
    by (rule spike_dev_nth[OF b])
  also have "\<dots> = (replicate 13 (Fin 0) @ [Fin \<bar>x - (1300 + x) / 14\<bar>]) ! j"
    using j by (auto simp: nth_append)
  finally show "take 14 (drop 16 (s_abs (s_sub (replicate 29 (Fin 100) @ [Fin x])
                      (rolling_mean 14 (replicate 29 (Fin 100) @ [Fin x]))))) ! j
        = (replicate 13 (Fin 0) @ [Fin \<bar>x - (1300 + x) / 14\<bar>]) ! j" .
qed

lemma entry_bars_cci:
  "cci (map (\<lambda>b. Fin (b_high b)) entry_bars) (map (\<lambda>b. Fin (b_low b)) entry_bars)
       (map (\<lambda>b. Fin (b_close b)) entry_bars) 14 ! 29 = Fin (2800 / 3)"
proof -
  let ?hi = "map (\<lambda>b. Fin (b_high b)) entry_bars"
  let ?lo = "map (\<lambda>b. Fin (b_low b)) entry_bars"
  let ?cl = "map (\<lambda>b. Fin (b_close b)) entry_bars"
  have ma: "cci_ma ?hi ?lo ?cl 14 ! 29 = Fin ((1300 + 305 / 3) / 14)"
    by (simp add: cci_ma_def entry_bars_tp spike_ma_nth)
  have dev: "cci_dev ?hi ?lo ?cl 14 ! 29 = Fin (65 / 588)"
    unfolding cci_dev_def cci_ma_def entry_bars_tp
    by (simp add: rolling_mean_nth spike_dev_window window_mean_const_snoc)
  have md: "cci_md ?hi ?lo ?cl 14 ! 29 = Fin (65 / 588)"
    by (simp add: cci_md_def s_replace_nth dev entry_bars_length)
  have tp: "cci_tp ?hi ?lo ?cl ! 29 = Fin (305 / 3)"
    by (simp add: entry_bars_tp nth_append)
  show ?thesis
    by (simp add: cci_nth entry_bars_length tp ma md)
qed

lemma entry_bars_rows:
  "entry_bars ! 28 = mk_bar 100 101 99 100"
  "entry_bars ! 29 = mk_bar 100 103 100 102"
  "last entry_bars = mk_bar 100 103 100 102"
  by (simp_all add: entry_bars_def nth_append)

lemma entry_bars_signal:
  "last (momentum_entries (compute_indicators entry_bars 12 26 9 14) 0.20 0 True
           default_use_patterns)"
proof -
  let ?df = "compute_indicators entry_bars 12 26 9 14"
  have len: "length ?df = 30" by (simp add: entry_bars_length)
  have i: "29 < length ?df" by (simp add: entry_bars_length)
  have r28: "c_open (?df ! 28) = Fin 100" "c_high (?df ! 28) = Fin 101"
      "c_low (?df ! 28) = Fin 99" "c_close (?df ! 28) = Fin 100"
    by (simp_all add: compute_indicators_prices entry_bars_length entry_bars_rows mk_bar_def)
  have r29: "c_close (?df ! 29) = Fin 102"
    by (simp add: compute_indicators_prices entry_bars_length entry_bars_rows mk_bar_def)
  have doji: "is_doji (map c_open ?df) (map c_high ?df) (map c_low ?df) (map c_close ?df)
                0.20 ! 28"
    by (subst is_doji_nth[where n=30]) (simp_all add: entry_bars_length r28)
  have macd: "fgt (c_macd_line (?df ! 29)) (c_macd_signal (?df ! 29))"
    by (simp add: compute_indicators_macd entry_bars_length entry_bars_macd)
  have cci: "fgt (c_cci (?df ! 29)) (Fin 0)"
    by (simp add: compute_indicators_cci entry_bars_length entry_bars_cci)
  have brk: "fgt (c_close (?df ! 29)) (c_high (?df ! 28))"
    by (simp add: r28 r29)
  have "momentum_entries ?df 0.20 0 True default_use_patterns ! 29"
    unfolding momentum_entries_nth[OF i] using doji macd cci brk by simp
  moreover have "last (momentum_entries ?df 0.20 0 True default_use_patterns)
      = momentum_entries ?df 0.20 0 True default_use_patterns ! 29"
  proof -
    have l: "length (momentum_entries ?df 0.20 0 True default_use_patterns) = 30"
      by (simp add: momentum_entries_def default_use_patterns_def Let_def entry_bars_length)
    then have ne: "momentum_entries ?df 0.20 0 True default_use_patterns \<noteq> []" by auto
    show ?thesis unfolding last_conv_nth[OF ne] l by simp
  qed
  ultimately show ?thesis by simp
qed

lemma entry_bars_branch:
  assumes "\<not> in_pos P"
  shows "analyze_bar default_momo (STATE, P) entry_bars
     = entry_branch STATE P (compute_indicators entry_bars 12 26 9 14) (Fin 102)"
proof -
  have l: "30 \<le> length entry_bars" by (simp add: entry_bars_length)
  show ?thesis
    using analyze_bar_flat[OF l assms, of default_momo STATE] entry_bars_signal
    by (simp add: default_momo_def entry_bars_rows mk_bar_def)
qed

lemma entry_bars_prev_low:
  "last (shift1 (map c_low (compute_indicators entry_bars 12 26 9 14))) = Fin 99"
proof -
  have "2 \<le> length entry_bars" by (simp add: entry_bars_length)
  from prev_low[OF this, of 12 26 9 14] show ?thesis
    by (simp add: entry_bars_length entry_bars_rows mk_bar_def)
qed

lemma entry_bars_size:
  "position_size_float (PFin 102) (PFin (5049 / 50)) (PFin 10000) (PFin (1 / 100)) = Inr 98"
  "position_size_float (PFin 102) (PFin (5049 / 50)) (PFin 100) (PFin (1 / 100)) = Inr 0"
proof -
  have h: "\<bar>102 - 5049 / 50 :: real\<bar> \<le> float_max" "\<bar>10000 * (1 / 100) :: real\<bar> \<le> float_max"
      "max 0 (10000 * (1 / 100)) / max (1 / 100) (102 - 5049 / 50 :: real) \<le> float_max"
    by (rule le_float_max, simp)+
  have k: "\<bar>100 * (1 / 100) :: real\<bar> \<le> float_max"
      "max 0 (100 * (1 / 100)) / max (1 / 100) (102 - 5049 / 50 :: real) \<le> float_max"
    by (rule le_float_max, simp)+
  show "position_size_float (PFin 102) (PFin (5049 / 50)) (PFin 10000) (PFin (1 / 100)) = Inr 98"
    unfolding position_size_float_in_range[OF h] by simp
  show "position_size_float (PFin 102) (PFin (5049 / 50)) (PFin 100) (PFin (1 / 100)) = Inr 0"
    unfolding position_size_float_in_range[OF h(1) k] by simp
qed

lemma entry_bars_accept:
  "analyze_bar default_momo (default_state, initial_pos) entry_bars
     = ((default_state\<lparr>st_max_loss_pct := 1 / 100\<rparr>,
         \<lparr>in_pos = True, p_entry = Fin 102, p_stop = Fin (5049 / 50), p_qty = 98,
          last_trailing = Some (Fin (5049 / 50))\<rparr>),
        [Enter (Fin 102) (Fin (5049 / 50)) (Fin 99) (Fin (5049 / 50)) 98 (1 / 100)])"
proof -
  have ni: "\<not> in_pos initial_pos" by (simp add: initial_pos_def)
  note ps = entry_bars_size
  show ?thesis
    unfolding entry_bars_branch[OF ni]
    by (simp add: entry_branch_def Let_def entry_bars_prev_low used_risk_pct_def py_max_Fin
        to_float_small ps default_state_def initial_pos_def)
qed

lemma entry_bars_reject:
  "analyze_bar default_momo (poor_state, initial_pos) entry_bars
     = ((poor_state\<lparr>st_max_loss_pct := 1 / 100\<rparr>,
         \<lparr>in_pos = False, p_entry = Fin 102, p_stop = Fin (5049 / 50), p_qty = 0,
          last_trailing = None\<rparr>), [])"
proof -
  have ni: "\<not> in_pos initial_pos" by (simp add: initial_pos_def)
  note ps = entry_bars_size
  show ?thesis
    unfolding entry_bars_branch[OF ni]
    by (simp add: entry_branch_def Let_def entry_bars_prev_low used_risk_pct_def py_max_Fin
        to_float_small ps poor_state_def initial_pos_def)
qed

text \<open>
  After \<open>!risk 1e305\<close> the same frame makes \<open>position_size\<close> overflow: the error is
  reported, no position is opened and the cutoff keeps its value.
\<close>

lemma entry_bars_overflow:
  "analyze_bar default_momo (overflow_state, initial_pos) entry_bars
     = ((overflow_state,
         \<lparr>in_pos = False, p_entry = Fin 102, p_stop = Fin 99, p_qty = 0,
          last_trailing = None\<rparr>),
        [ErrorMsg OverflowError])"
proof -
  have ni: "\<not> in_pos initial_pos" by (simp add: initial_pos_def)
  have big: "float_max < 10000 * 10 ^ 305" using float_max_bounds(2) by simp
  have rd: "risk_dollars_float (PFin 10000) (PFin (10 ^ 305)) = PInf"
    using big by (simp add: risk_dollars_float_def pf_max_def to_float_def)
  have "\<bar>102 - 99 :: real\<bar> \<le> float_max" by (simp add: le_float_max)
  then have rps: "risk_per_share_float (PFin 102) (PFin 99) = PFin 3"
    by (simp add: risk_per_share_float_def pf_max_def to_float_in_range)
  have ps: "position_size_float (PFin 102) (PFin 99) (PFin 10000) (PFin (10 ^ 305))
      = Inl OverflowError"
    unfolding position_size_float_def rd rps by (simp add: pf_truediv_def)
  have st: "max 99 (102 * (1 - 10 ^ 305)) = (99 :: real)" by simp
  have tf: "to_float (10 ^ 305) = PFin (10 ^ 305)" by (simp add: to_float_small)
  have eb: "entry_branch overflow_state initial_pos (compute_indicators entry_bars 12 26 9 14)
              (Fin 102)
      = ((overflow_state, initial_pos\<lparr>p_entry := Fin 102, p_stop := Fin 99\<rparr>),
         [ErrorMsg OverflowError])"
  proof -
    have u: "used_risk_pct overflow_state = 10 ^ 305"
      by (simp add: used_risk_pct_def overflow_state_def)
    have e: "st_equity overflow_state = 10000" by (simp add: overflow_state_def)
    have s: "py_max (Fin 99) (fmul (Fin 102) (Fin (1.0 - 10 ^ 305))) = Fin 99"
      unfolding fmul.simps py_max_Fin using st by simp
    have t: "of_fl (Fin 102) = PFin 102" "of_fl (Fin 99) = PFin 99"
        "to_float 10000 = PFin 10000"
      by (simp_all add: to_float_small)
    show ?thesis
      unfolding entry_branch_def Let_def entry_bars_prev_low u e s t tf ps by simp
  qed
  show ?thesis
    unfolding entry_bars_branch[OF ni] eb by (simp add: initial_pos_def)
qed


lemma analyze_bar_hold:
  assumes "in_pos P" and "30 \<le> length df"
      and "\<not> immediate_stop_hit (Fin (b_close (last df))) (p_entry P)
               (Fin (st_max_loss_pct STATE))"
      and "\<not> fle (Fin (b_low (last df))) (p_stop P)"
      and "\<not> 0 < st_tp_R STATE"
  shows "in_pos (snd (fst (analyze_bar MOMO (STATE, P) df)))"
proof -
  have ne: "df \<noteq> []" using assms(2) by auto
  show ?thesis
    unfolding analyze_bar_long[OF assms(2,1)]
    using assms ne
    by (simp add: long_branch_def Let_def last_prices trailing_branch_in_pos)
qed


theorem rejected_entry_frame_witness:
  "\<not> in_pos initial_pos \<and> 30 \<le> length entry_bars
   \<and> position_size_float (to_float 102) (to_float (5049 / 50)) (to_float (st_equity poor_state))
        (to_float (1 / 100)) = Inr 0
   \<and> \<not> in_pos (snd (fst (analyze_bar default_momo (poor_state, initial_pos) entry_bars)))
   \<and> snd (analyze_bar default_momo (poor_state, initial_pos) entry_bars) = []
   \<and> st_equity (fst (fst (analyze_bar default_momo (poor_state, initial_pos) entry_bars)))
       = st_equity poor_state"
proof -
  have ni: "\<not> in_pos initial_pos" by (simp add: initial_pos_def)
  have l: "30 \<le> length entry_bars" by (simp add: entry_bars_length)
  have sg: "last (momentum_entries
                  (compute_indicators entry_bars (m_macd_fast default_momo)
                     (m_macd_slow default_momo) (m_macd_signal default_momo)
                     (m_cci_len default_momo))
                  (m_doji_body_pct default_momo) (m_cci_entry default_momo)
                  (m_confirm_break_high default_momo) default_use_patterns)"
    using entry_bars_signal by (simp add: default_momo_def)
  have en: "(102 :: real) = b_close (last entry_bars)"
    by (simp add: entry_bars_rows mk_bar_def)
  have us: "(1 / 100 :: real) = used_risk_pct poor_state"
    by (simp add: used_risk_pct_def poor_state_def)
  have sp: "(5049 / 50 :: real)
      = max (b_low (entry_bars ! (length entry_bars - 2))) (102 * (1 - 1 / 100))"
    by (simp add: entry_bars_length entry_bars_rows mk_bar_def)
  have ps: "position_size_float (to_float 102) (to_float (5049 / 50))
        (to_float (st_equity poor_state)) (to_float (1 / 100)) = Inr 0"
    by (simp add: to_float_small poor_state_def entry_bars_size)
  have rj: "(0::int) \<le> 0 \<or> fle (Fin 102) (Fin (5049 / 50)) \<or> \<not> isfinite (Fin (5049 / 50))"
    by simp
  from rejected_entry_frame[OF ni l sg en us sp ps rj entry_bars_reject] ni l ps
  show ?thesis
    by (simp add: entry_bars_reject)
qed

text \<open>
  The claim as stated fails for the cutoff: on the example frame with equity 100 the
  quantity is 0, the candidate is rejected, and the cutoff of 2% has become 1%.
\<close>

theorem rejected_entry_cutoff_counterexample:
  "\<not> in_pos initial_pos
   \<and> last (momentum_entries (compute_indicators entry_bars 12 26 9 14) 0.20 0 True
             default_use_patterns)
   \<and> p_qty (snd (fst (analyze_bar default_momo (poor_state, initial_pos) entry_bars))) = 0
   \<and> \<not> in_pos (snd (fst (analyze_bar default_momo (poor_state, initial_pos) entry_bars)))
   \<and> st_max_loss_pct poor_state = 2 / 100
   \<and> st_max_loss_pct (fst (fst (analyze_bar default_momo (poor_state, initial_pos) entry_bars)))
       = 1 / 100"
proof -
  have a: "\<not> in_pos initial_pos" by (simp add: initial_pos_def)
  have b: "st_max_loss_pct poor_state = 2 / 100" by (simp add: poor_state_def)
  have c: "\<not> in_pos (snd (fst (analyze_bar default_momo (poor_state, initial_pos) entry_bars)))"
    by (simp add: entry_bars_reject)
  have d: "st_max_loss_pct
             (fst (fst (analyze_bar default_momo (poor_state, initial_pos) entry_bars)))
           = 1 / 100"
    by (simp add: entry_bars_reject)
  have e: "p_qty (snd (fst (analyze_bar default_momo (poor_state, initial_pos) entry_bars))) = 0"
    by (simp add: entry_bars_reject)
  from a b c d e entry_bars_signal show ?thesis by blast
qed

lemma crash_bars_facts:
  "length crash_bars = 30" "last crash_bars = mk_bar 95 95 90 90"
  "length stop_bars = 30" "last stop_bars = mk_bar 101 101.5 100.5 101"
  by (simp_all add: crash_bars_def stop_bars_def)

theorem long_exit_priority_witness:
  "in_pos long_pos \<and> 30 \<le> length crash_bars
   \<and> immediate_stop_hit (Fin (b_close (last crash_bars))) (p_entry long_pos)
        (Fin (st_max_loss_pct default_state))
   \<and> fle (Fin (b_low (last crash_bars))) (p_stop long_pos)
   \<and> analyze_bar default_momo (default_state, long_pos) crash_bars
       = ((default_state, long_pos\<lparr>in_pos := False\<rparr>),
          [ExitFailSafe (st_max_loss_pct default_state)])
   \<and> fle (Fin (b_low (last stop_bars))) (p_stop long_pos)
   \<and> analyze_bar default_momo (default_state, long_pos) stop_bars
       = ((default_state, long_pos\<lparr>in_pos := False\<rparr>), [ExitStop (p_stop long_pos)])"
proof -
  have ip: "in_pos long_pos" by (simp add: long_pos_def)
  have l1: "30 \<le> length crash_bars" and l2: "30 \<le> length stop_bars"
    by (simp_all add: crash_bars_facts)
  have fs: "immediate_stop_hit (Fin (b_close (last crash_bars))) (p_entry long_pos)
        (Fin (st_max_loss_pct default_state))"
    by (simp add: crash_bars_facts mk_bar_def long_pos_def default_state_def
        immediate_stop_hit_def)
  have st1: "fle (Fin (b_low (last crash_bars))) (p_stop long_pos)"
    by (simp add: crash_bars_facts mk_bar_def long_pos_def)
  have nfs: "\<not> immediate_stop_hit (Fin (b_close (last stop_bars))) (p_entry long_pos)
        (Fin (st_max_loss_pct default_state))"
    by (simp add: crash_bars_facts mk_bar_def long_pos_def default_state_def
        immediate_stop_hit_def)
  have st2: "fle (Fin (b_low (last stop_bars))) (p_stop long_pos)"
    by (simp add: crash_bars_facts mk_bar_def long_pos_def)
  from long_exit_priority[OF ip l1, of default_state default_momo]
       long_exit_priority[OF ip l2, of default_state default_momo]
       ip l1 fs st1 nfs st2
  show ?thesis by blast
qed

lemma example_trace_states:
  "trace default_momo (default_state, initial_pos) example_inputs ! 1
     = (default_state\<lparr>st_max_loss_pct := 1 / 100\<rparr>,
         \<lparr>in_pos = True, p_entry = Fin 102, p_stop = Fin (5049 / 50), p_qty = 98,
          last_trailing = Some (Fin (5049 / 50))\<rparr>)"
  "in_pos (snd (trace default_momo (default_state, initial_pos) example_inputs ! 2))"
proof -
  let ?s1 = "(default_state\<lparr>st_max_loss_pct := 1 / 100\<rparr>,
         \<lparr>in_pos = True, p_entry = Fin 102, p_stop = Fin (5049 / 50), p_qty = 98,
          last_trailing = Some (Fin (5049 / 50))\<rparr>)"
  show s1: "trace default_momo (default_state, initial_pos) example_inputs ! 1 = ?s1"
    by (simp add: example_inputs_def next_state_def entry_bars_accept)
  have hb: "30 \<le> length hold_bars" "last hold_bars = mk_bar 102 104 101.5 103"
    by (simp_all add: hold_bars_def entry_bars_length)
  have "in_pos (snd (fst (analyze_bar default_momo ?s1 hold_bars)))"
    by (rule analyze_bar_hold)
       (simp_all add: hb mk_bar_def default_state_def immediate_stop_hit_def)
  moreover have "trace default_momo (default_state, initial_pos) example_inputs ! 2
      = fst (analyze_bar default_momo ?s1 hold_bars)"
    by (simp add: example_inputs_def next_state_def entry_bars_accept)
  ultimately show "in_pos (snd (trace default_momo (default_state, initial_pos) example_inputs ! 2))"
    by simp
qed

theorem stop_monotone_witness:
  "in_pos (snd (analyze_and_trade default_momo default_state example_inputs ! 1))
   \<and> in_pos (snd (analyze_and_trade default_momo default_state example_inputs ! 2))
   \<and> (\<exists>x y. p_stop (snd (analyze_and_trade default_momo default_state example_inputs ! 1))
               = Fin x
           \<and> p_stop (snd (analyze_and_trade default_momo default_state example_inputs ! 2))
               = Fin y
           \<and> x \<le> y)"
proof -
  have a: "in_pos (snd (trace default_momo (default_state, initial_pos) example_inputs ! 1))"
    using example_trace_states(1) by simp
  note b = example_trace_states(2)
  have le: "(1::nat) \<le> 2" "2 \<le> length example_inputs"
    by (simp_all add: example_inputs_def)
  have all: "\<forall>k. 1 \<le> k \<and> k \<le> 2 \<longrightarrow>
      in_pos (snd (trace default_momo (default_state, initial_pos) example_inputs ! k))"
  proof (intro allI impI)
    fix k :: nat assume "1 \<le> k \<and> k \<le> 2"
    then have "k = 1 \<or> k = 2" by auto
    then show "in_pos (snd (trace default_momo (default_state, initial_pos) example_inputs ! k))"
      using a b by auto
  qed
  note t = stop_monotone[unfolded analyze_and_trade_def, OF le all]
  show ?thesis unfolding analyze_and_trade_def using t a b by blast
qed


end
